theory Spec2Isabelle
  imports Main
begin

unbundle bit_operations_syntax

section \<open>Voice-driven move resolution: the data model\<close>

text \<open>
  The program resolves a spoken description of a chess move against a board held by an
  external rules engine (the \<^verbatim>\<open>chess\<close> library).  Squares are the library's integers
  \<open>0 .. 63\<close> (\<open>a1 = 0\<close>, \<open>b1 = 1\<close>, ..., \<open>h8 = 63\<close>), bitboards are Python's unbounded
  integers, and a square set is a bitboard cut to 64 bits.
\<close>

datatype error = AttributeError | IndexError | KeyError | AssertionError | RecursionError

datatype piece_type = PAWN | KNIGHT | BISHOP | ROOK | QUEEN | KING

record Piece =
  piece_type :: piece_type
  color :: bool

text \<open>\<open>chess.WHITE\<close> is \<open>True\<close>, \<open>chess.BLACK\<close> is \<open>False\<close>.\<close>

abbreviation (input) WHITE :: bool where "WHITE \<equiv> True"
abbreviation (input) BLACK :: bool where "BLACK \<equiv> False"

record Move =
  from_square :: nat
  to_square :: nat
  promotion :: "piece_type option"

subsection \<open>Bitboards of the rules engine\<close>

definition BB_ALL :: int where
  "BB_ALL = 0xffffffffffffffff"

definition BB_SQUARES :: "nat \<Rightarrow> int" where
  "BB_SQUARES sq = push_bit sq 1"

text \<open>\<open>BB_FILES i\<close> is file \<open>a\<close> shifted left by \<open>i\<close>; \<open>BB_RANKS i\<close> is rank 1 shifted
  left by \<open>8 * i\<close>.\<close>

definition BB_FILES :: "nat \<Rightarrow> int" where
  "BB_FILES i = push_bit i 0x0101010101010101"

definition BB_RANKS :: "nat \<Rightarrow> int" where
  "BB_RANKS i = push_bit (8 * i) 0xff"

definition square_file :: "nat \<Rightarrow> nat" where
  "square_file sq = sq mod 8"

definition square_rank :: "nat \<Rightarrow> nat" where
  "square_rank sq = sq div 8"

text \<open>The dictionaries \<open>PIECES\<close>, \<open>FILES\<close> and \<open>RANKS\<close> of \<^verbatim>\<open>candidate_moves.py\<close>.\<close>

definition PIECES :: "string \<rightharpoonup> piece_type" where
  "PIECES = map_of [(''pawn'', PAWN), (''knight'', KNIGHT), (''bishop'', BISHOP),
                    (''rook'', ROOK), (''queen'', QUEEN), (''king'', KING)]"

definition FILES :: "string \<rightharpoonup> int" where
  "FILES = map_of [(''a'', BB_FILES 0), (''b'', BB_FILES 1), (''c'', BB_FILES 2),
                   (''d'', BB_FILES 3), (''e'', BB_FILES 4), (''f'', BB_FILES 5),
                   (''g'', BB_FILES 6), (''h'', BB_FILES 7)]"

definition RANKS :: "string \<rightharpoonup> int" where
  "RANKS = map_of [(''1'', BB_RANKS 0), (''2'', BB_RANKS 1), (''3'', BB_RANKS 2),
                   (''4'', BB_RANKS 3), (''5'', BB_RANKS 4), (''6'', BB_RANKS 5),
                   (''7'', BB_RANKS 6), (''8'', BB_RANKS 7)]"

text \<open>The squares of a square set in iteration order (ascending), and the bitboard of the
  squares that satisfy a predicate.\<close>

definition squares_of :: "int \<Rightarrow> nat list" where
  "squares_of bb = filter (bit bb) [0..<64]"

definition squares_mask :: "(nat \<Rightarrow> bool) \<Rightarrow> int" where
  "squares_mask P = fold (\<lambda>sq m. if P sq then m OR BB_SQUARES sq else m) [0..<64] 0"

subsection \<open>Attack patterns of a lone piece\<close>

text \<open>
  \<open>BaseBoard.empty()\<close>, \<open>set_piece_at\<close> and \<open>attacks\<close> belong to the rules engine.  On a
  board that holds nothing but the piece itself the engine's attack tables are the plain
  movement patterns, written here by file and rank distance.
\<close>

definition dist :: "nat \<Rightarrow> nat \<Rightarrow> nat" where
  "dist a b = (if a \<le> b then b - a else a - b)"

definition lone_piece_attacks :: "Piece \<Rightarrow> nat \<Rightarrow> nat \<Rightarrow> bool" where
  "lone_piece_attacks p a b =
     (let df = dist (square_file a) (square_file b);
          dr = dist (square_rank a) (square_rank b)
      in a < 64 \<and> b < 64 \<and>
         (case piece_type p of
            PAWN \<Rightarrow> df = 1 \<and> (if color p then square_rank b = square_rank a + 1
                                else square_rank a = square_rank b + 1)
          | KNIGHT \<Rightarrow> (df = 1 \<and> dr = 2) \<or> (df = 2 \<and> dr = 1)
          | KING \<Rightarrow> max df dr = 1
          | BISHOP \<Rightarrow> df = dr \<and> df \<noteq> 0
          | ROOK \<Rightarrow> (df = 0) \<noteq> (dr = 0)
          | QUEEN \<Rightarrow> (df = dr \<and> df \<noteq> 0) \<or> ((df = 0) \<noteq> (dr = 0))))"

section \<open>Feasibility\<close>

text \<open>
  \<open>is_possible_move\<close> of \<^verbatim>\<open>candidate_moves.py\<close>.  The caller may hand it the result of
  \<open>board.piece_at\<close>, which is \<open>None\<close> on an empty square; reading \<open>piece.piece_type\<close> then
  raises \<open>AttributeError\<close>.
\<close>

definition is_possible_move :: "Piece option \<Rightarrow> nat \<Rightarrow> nat \<Rightarrow> error + bool" where
  "is_possible_move piece from_sq to_sq =
     (case piece of
        None \<Rightarrow> Inl AttributeError
      | Some p \<Rightarrow>
          if piece_type p = PAWN then
            (let bb_from_square = BB_SQUARES from_sq;
                 bb_to_square = BB_SQUARES to_sq;
                 legal_advances =
                   (if color p = WHITE
                    then push_bit 8 bb_from_square OR (push_bit 16 bb_from_square AND BB_RANKS 3)
                    else drop_bit 8 bb_from_square OR (drop_bit 16 bb_from_square AND BB_RANKS 4))
             in Inr (legal_advances AND bb_to_square \<noteq> 0))
          else Inr (lone_piece_attacks p from_sq to_sq))"


section \<open>The board and blocking squares\<close>

text \<open>
  The board is the rules engine's object.  The model keeps the fields the program reads
  (piece placement, side to move, move history) and the two further fields the rules of
  chess depend on; everything that needs the rules themselves is asked from the engine
  (record \<open>rules_engine\<close> below).
\<close>

record Board =
  piece_map :: "nat \<Rightarrow> Piece option"
  turn :: bool
  castling_rights :: int
  ep_square :: "nat option"
  move_stack :: "Move list"

text \<open>\<open>board.piece_at(square)\<close>, for the squares \<open>0 .. 63\<close> that the program passes (it takes
  them from square sets and from the castling constants).\<close>

definition piece_at :: "Board \<Rightarrow> nat \<Rightarrow> Piece option" where
  "piece_at board sq = piece_map board sq"

text \<open>\<open>board.pieces(piece_type, color)\<close>: the squares that hold such a piece.\<close>

definition pieces_mask :: "Board \<Rightarrow> piece_type \<Rightarrow> bool \<Rightarrow> int" where
  "pieces_mask board pt c =
     squares_mask (\<lambda>sq. piece_at board sq = Some \<lparr>piece_type = pt, color = c\<rparr>)"

text \<open>\<open>board.peek()\<close> reads the last entry of the move stack and raises \<open>IndexError\<close> on an
  empty one.\<close>

definition peek :: "Board \<Rightarrow> error + Move" where
  "peek board = (case move_stack board of [] \<Rightarrow> Inl IndexError | _ \<Rightarrow> Inr (last (move_stack board)))"

text \<open>\<open>SquareSet.between(a, b)\<close>: the squares strictly between two squares on a common
  rank, file or diagonal, and no square when they share none.\<close>

definition strictly_between :: "nat \<Rightarrow> nat \<Rightarrow> nat \<Rightarrow> bool" where
  "strictly_between a b s =
     (let fa = square_file a; ra = square_rank a;
          fb = square_file b; rb = square_rank b;
          fs = square_file s; rs = square_rank s
      in a < 64 \<and> b < 64 \<and>
         ((fa = fb \<and> fs = fa \<and> min ra rb < rs \<and> rs < max ra rb) \<or>
          (ra = rb \<and> rs = ra \<and> min fa fb < fs \<and> fs < max fa fb) \<or>
          (dist fa fb = dist ra rb \<and> dist fa fs = dist ra rs \<and>
           min fa fb < fs \<and> fs < max fa fb \<and> min ra rb < rs \<and> rs < max ra rb)))"

definition between :: "nat \<Rightarrow> nat \<Rightarrow> int" where
  "between a b = squares_mask (strictly_between a b)"

text \<open>
  \<open>piece_squares |= square\<close> is \<open>SquareSet.__ior__\<close>: the right operand is turned into a
  square set by \<open>SquareSet(other)\<close>, which reads an integer as a bitboard
  (\<open>other.__int__() & BB_ALL\<close>).  The program passes a square, which is an integer.
\<close>

definition SquareSet_ior :: "int \<Rightarrow> int \<Rightarrow> int" where
  "SquareSet_ior m other = m OR (other AND BB_ALL)"

definition blocking_squares :: "Board \<Rightarrow> nat \<Rightarrow> nat \<Rightarrow> error + int" where
  "blocking_squares board from_sq to_sq =
     (let from_piece = piece_at board from_sq;
          to_piece = piece_at board to_sq
      in case is_possible_move from_piece from_sq to_sq of
           Inl e \<Rightarrow> Inl e
         | Inr possible \<Rightarrow>
             if possible then
               (let piece_squares =
                      fold (\<lambda>square acc. if piece_at board square \<noteq> None
                                          then SquareSet_ior acc (int square) else acc)
                        (squares_of (between from_sq to_sq)) 0
                in case to_piece of
                     None \<Rightarrow> Inr piece_squares
                   | Some tp \<Rightarrow>
                       (case from_piece of
                          None \<Rightarrow> Inl AttributeError
                        | Some fp \<Rightarrow>
                            if color fp = color tp
                            then Inr (SquareSet_ior piece_squares (int to_sq))
                            else Inr piece_squares))
             else Inr 0)"

section \<open>Square specifications\<close>

record SpecificSquares =
  ss_color :: bool
  ss_piece :: "string option"
  ss_file :: "string option"
  ss_rank :: "string option"

text \<open>The constructor with its defaults, truthiness of an optional string, and
  \<open>SpecificSquares.__bool__\<close>, a chained comparison.\<close>

definition SpecificSquares_init :: "bool \<Rightarrow> SpecificSquares" where
  "SpecificSquares_init c = \<lparr>ss_color = c, ss_piece = None, ss_file = None, ss_rank = None\<rparr>"

definition truthy :: "string option \<Rightarrow> bool" where
  "truthy s = (case s of None \<Rightarrow> False | Some x \<Rightarrow> x \<noteq> [])"

definition ss_bool :: "SpecificSquares \<Rightarrow> bool" where
  "ss_bool self = (\<not> (ss_piece self = ss_file self \<and> ss_file self = ss_rank self \<and> ss_rank self = None))"

text \<open>Membership in a dictionary, and subscription of a dictionary by an attribute:
  \<open>KeyError\<close> when the key is missing.\<close>

definition has_key :: "(string \<rightharpoonup> 'v) \<Rightarrow> string \<Rightarrow> bool" where
  "has_key d k = (case d k of None \<Rightarrow> False | Some v \<Rightarrow> True)"

definition subscript :: "(string \<rightharpoonup> 'v) \<Rightarrow> string option \<Rightarrow> error + 'v" where
  "subscript d k =
     (case k of
        None \<Rightarrow> Inl KeyError
      | Some key \<Rightarrow> (case d key of None \<Rightarrow> Inl KeyError | Some v \<Rightarrow> Inr v))"

definition find_candidate_squares :: "SpecificSquares \<Rightarrow> Board \<Rightarrow> error + int" where
  "find_candidate_squares self board =
     (case (if truthy (ss_file self) then subscript FILES (ss_file self) else Inr BB_ALL) of
        Inl e \<Rightarrow> Inl e
      | Inr file_squares \<Rightarrow>
          if truthy (ss_file self) \<and> \<not> truthy (ss_piece self) \<and> \<not> truthy (ss_rank self)
          then Inr (pieces_mask board PAWN (ss_color self) AND file_squares)
          else
            (case (if truthy (ss_piece self)
                   then (case subscript PIECES (ss_piece self) of
                           Inl e \<Rightarrow> Inl e
                         | Inr pt \<Rightarrow> Inr (pieces_mask board pt (ss_color self)))
                   else Inr BB_ALL) of
               Inl e \<Rightarrow> Inl e
             | Inr piece_squares \<Rightarrow>
                 (case (if truthy (ss_rank self) then subscript RANKS (ss_rank self) else Inr BB_ALL) of
                    Inl e \<Rightarrow> Inl e
                  | Inr rank_squares \<Rightarrow>
                      Inr (((piece_squares AND BB_ALL) AND file_squares) AND rank_squares))))"


section \<open>The rules engine\<close>

text \<open>
  Every query that needs the rules of chess is answered by the external engine.  The
  program is modelled over an arbitrary engine: a lookup of a legal move by origin,
  destination and promotion piece (\<open>None\<close> when the engine raises \<open>ValueError\<close>), the
  capture predicate, attack, pin and check queries, castling rights, parsing and rendering
  of standard notation, and \<open>push\<close>, the one operation that changes a board.  The queries
  are pure: they leave the board as it is.
\<close>

record rules_engine =
  find_move :: "Board \<Rightarrow> nat \<Rightarrow> nat \<Rightarrow> piece_type option \<Rightarrow> Move option"
  is_capture :: "Board \<Rightarrow> Move \<Rightarrow> bool"
  is_attacked_by :: "Board \<Rightarrow> bool \<Rightarrow> nat \<Rightarrow> bool"
  pin :: "Board \<Rightarrow> bool \<Rightarrow> nat \<Rightarrow> int"
  is_check :: "Board \<Rightarrow> bool"
  has_kingside_castling_rights :: "Board \<Rightarrow> bool \<Rightarrow> bool"
  has_queenside_castling_rights :: "Board \<Rightarrow> bool \<Rightarrow> bool"
  parse_san :: "Board \<Rightarrow> string \<Rightarrow> Move option"
  san :: "Board \<Rightarrow> Move \<Rightarrow> string"
  push :: "Board \<Rightarrow> Move \<Rightarrow> Board"

section \<open>Rejected moves and rejected castles\<close>

text \<open>\<open>RejectedMove\<close> is a subclass of the engine's \<open>Move\<close>; its back-reference to the board
  is not copied into the record.\<close>

record RejectedMove = Move +
  possible :: bool
  rm_captures :: bool
  rm_blocking_pieces :: int
  still_in_check :: bool
  absolute_pin :: bool

definition RejectedMove_init :: "rules_engine \<Rightarrow> Board \<Rightarrow> nat \<Rightarrow> nat \<Rightarrow> error + RejectedMove" where
  "RejectedMove_init E board from_sq to_sq =
     (let from_piece = piece_at board from_sq;
          to_piece = piece_at board to_sq
      in case is_possible_move from_piece from_sq to_sq of
           Inl e \<Rightarrow> Inl e
         | Inr poss \<Rightarrow>
             (case blocking_squares board from_sq to_sq of
                Inl e \<Rightarrow> Inl e
              | Inr blocking \<Rightarrow>
                  (case from_piece of
                     None \<Rightarrow> Inl AttributeError
                   | Some fp \<Rightarrow>
                       Inr \<lparr>from_square = from_sq, to_square = to_sq, promotion = None,
                            possible = poss,
                            rm_captures = (to_piece \<noteq> None),
                            rm_blocking_pieces = blocking,
                            still_in_check = is_attacked_by E board (\<not> turn board) to_sq,
                            absolute_pin =
                              (pin E board (color fp) from_sq AND BB_ALL \<noteq> BB_ALL)\<rparr>)))"

text \<open>A rejected castle.  An attribute that \<open>__init__\<close> never assigned is \<open>None\<close>; reading
  it raises \<open>AttributeError\<close>.\<close>

record CastleMove =
  cm_side :: string
  in_check :: bool
  right_to_castle :: "bool option"
  cm_blocking_pieces :: "int option"
  through_check :: "bool option"
  into_check :: "bool option"

definition castle_conditions ::
  "rules_engine \<Rightarrow> Board \<Rightarrow> CastleMove \<Rightarrow> nat \<Rightarrow> nat \<Rightarrow> nat \<Rightarrow> error + CastleMove" where
  "castle_conditions E board self from_sq through_sq to_sq =
     (let self1 =
            (if cm_side self = ''king''
             then self\<lparr>right_to_castle := Some (has_kingside_castling_rights E board (turn board))\<rparr>
             else if cm_side self = ''queen''
             then self\<lparr>right_to_castle := Some (has_queenside_castling_rights E board (turn board))\<rparr>
             else self)
      in case right_to_castle self1 of
           None \<Rightarrow> Inl AttributeError
         | Some right \<Rightarrow>
             if right then
               (case blocking_squares board from_sq through_sq of
                  Inl e \<Rightarrow> Inl e
                | Inr blocking \<Rightarrow>
                    Inr (self1\<lparr>cm_blocking_pieces :=
                                 Some (if piece_at board to_sq \<noteq> None
                                       then SquareSet_ior blocking (int to_sq) else blocking),
                               through_check := Some (is_attacked_by E board (\<not> turn board) through_sq),
                               into_check := Some (is_attacked_by E board (\<not> turn board) to_sq)\<rparr>))
             else Inr self1)"

text \<open>The squares \<open>E1, F1, G1, D1, C1\<close> are 4, 5, 6, 3, 2 and \<open>E8, F8, G8, D8, C8\<close> are
  60, 61, 62, 59, 58.\<close>

definition CastleMove_init :: "rules_engine \<Rightarrow> Board \<Rightarrow> string \<Rightarrow> error + CastleMove" where
  "CastleMove_init E board side_name =
     (let self = \<lparr>cm_side = side_name, in_check = is_check E board, right_to_castle = None,
                  cm_blocking_pieces = None, through_check = None, into_check = None\<rparr>
      in if side_name = ''king'' then
           (if turn board = WHITE then castle_conditions E board self 4 5 6
            else castle_conditions E board self 60 61 62)
         else if side_name = ''queen'' then
           (if turn board = WHITE then castle_conditions E board self 4 3 2
            else castle_conditions E board self 60 59 58)
         else Inr self)"

section \<open>Board commands\<close>

record CommandMove =
  cmd_board :: Board
  candidate_moves :: "Move list"
  rejected_moves :: "RejectedMove list"
  from_where :: SpecificSquares
  to_where :: SpecificSquares
  captures :: bool
  promotes_to :: "string option"

record CastleCommand =
  cc_board :: Board
  cc_candidate_moves :: "Move list"
  cc_rejected_moves :: "CastleMove list"
  side :: "string option"

datatype BoardCommand = Directional CommandMove | Castle CastleCommand

definition CommandMove_init ::
  "Board \<Rightarrow> SpecificSquares \<Rightarrow> SpecificSquares \<Rightarrow> bool \<Rightarrow> string option \<Rightarrow> CommandMove" where
  "CommandMove_init board fw tw say_takes say_promotes =
     \<lparr>cmd_board = board, candidate_moves = [], rejected_moves = [],
      from_where = fw, to_where = tw, captures = say_takes, promotes_to = say_promotes\<rparr>"

text \<open>The constructor of a castle command asserts that the side is \<open>'king'\<close>, \<open>'queen'\<close> or
  \<open>None\<close>; the program constructs it with these three values only, and the model takes the
  side as given.\<close>

definition CastleCommand_init :: "Board \<Rightarrow> string option \<Rightarrow> CastleCommand" where
  "CastleCommand_init board sd =
     \<lparr>cc_board = board, cc_candidate_moves = [], cc_rejected_moves = [], side = sd\<rparr>"

text \<open>
  The body of the \<open>try\<close> block of \<open>CommandMove.consider_moves\<close>: the candidate, or \<open>None\<close>
  when \<open>ValueError\<close> is raised, by the engine's lookup or by the program itself for a move
  that is no capture although a capture was asked for.
\<close>

definition try_candidate ::
  "rules_engine \<Rightarrow> Board \<Rightarrow> bool \<Rightarrow> piece_type option \<Rightarrow> nat \<Rightarrow> nat \<Rightarrow> Move option" where
  "try_candidate E board capt promote_piece from_sq to_sq =
     (case find_move E board from_sq to_sq promote_piece of
        None \<Rightarrow> None
      | Some candidate \<Rightarrow>
          if capt \<and> \<not> is_capture E board candidate then None else Some candidate)"

text \<open>The two nested loops, over the pairs in the order of the iteration (origins outer,
  destinations inner), with the two result lists as accumulators.\<close>

fun consider_pairs ::
  "rules_engine \<Rightarrow> Board \<Rightarrow> bool \<Rightarrow> piece_type option \<Rightarrow> (nat \<times> nat) list \<Rightarrow>
     Move list \<Rightarrow> RejectedMove list \<Rightarrow> error + (Move list \<times> RejectedMove list)" where
  "consider_pairs E board capt promote_piece [] candidates rejects = Inr (candidates, rejects)"
| "consider_pairs E board capt promote_piece ((from_sq, to_sq) # rest) candidates rejects =
     (case try_candidate E board capt promote_piece from_sq to_sq of
        Some candidate \<Rightarrow>
          consider_pairs E board capt promote_piece rest (candidates @ [candidate]) rejects
      | None \<Rightarrow>
          (case RejectedMove_init E board from_sq to_sq of
             Inl e \<Rightarrow> Inl e
           | Inr r \<Rightarrow>
               consider_pairs E board capt promote_piece rest candidates (rejects @ [r])))"

definition square_pairs :: "int \<Rightarrow> int \<Rightarrow> (nat \<times> nat) list" where
  "square_pairs from_squares to_squares =
     List.product (squares_of from_squares) (squares_of to_squares)"

definition consider_moves :: "rules_engine \<Rightarrow> CommandMove \<Rightarrow> error + CommandMove" where
  "consider_moves E self =
     (case find_candidate_squares (from_where self) (cmd_board self) of
        Inl e \<Rightarrow> Inl e
      | Inr from_squares \<Rightarrow>
          (case find_candidate_squares (to_where self) (cmd_board self) of
             Inl e \<Rightarrow> Inl e
           | Inr to_squares \<Rightarrow>
               (let promote_piece = (case promotes_to self of None \<Rightarrow> None | Some s \<Rightarrow> PIECES s)
                in case consider_pairs E (cmd_board self) (captures self) promote_piece
                          (square_pairs from_squares to_squares) [] [] of
                     Inl e \<Rightarrow> Inl e
                   | Inr (candidates, rejects) \<Rightarrow>
                       Inr (self\<lparr>candidate_moves := candidates, rejected_moves := rejects\<rparr>))))"

text \<open>\<open>CastleCommand.consider_moves\<close>: one \<open>try\<close> block per side.\<close>

definition castle_try ::
  "rules_engine \<Rightarrow> CastleCommand \<Rightarrow> string \<Rightarrow> string \<Rightarrow> Move list \<times> CastleMove list \<Rightarrow>
     error + (Move list \<times> CastleMove list)" where
  "castle_try E self side_name notation acc =
     (if side self = Some side_name \<or> \<not> truthy (side self) then
        (case parse_san E (cc_board self) notation of
           Some m \<Rightarrow> Inr (fst acc @ [m], snd acc)
         | None \<Rightarrow>
             (case CastleMove_init E (cc_board self) side_name of
                Inl e \<Rightarrow> Inl e
              | Inr r \<Rightarrow> Inr (fst acc, snd acc @ [r])))
      else Inr acc)"

definition castle_consider_moves :: "rules_engine \<Rightarrow> CastleCommand \<Rightarrow> error + CastleCommand" where
  "castle_consider_moves E self =
     (case castle_try E self ''king'' ''O-O'' ([], []) of
        Inl e \<Rightarrow> Inl e
      | Inr acc \<Rightarrow>
          (case castle_try E self ''queen'' ''O-O-O'' acc of
             Inl e \<Rightarrow> Inl e
           | Inr (candidates, rejects) \<Rightarrow>
               Inr (self\<lparr>cc_candidate_moves := candidates, cc_rejected_moves := rejects\<rparr>)))"


section \<open>The command parser\<close>

definition TAKE_TOKENS :: "string list" where
  "TAKE_TOKENS = [''takes'', ''captures'']"

definition PROMOTE_TOKENS :: "string list" where
  "PROMOTE_TOKENS = [''promote'', ''equals'']"

definition KINGSIDE_TOKENS :: "string list" where
  "KINGSIDE_TOKENS = [''king'', ''short'']"

definition QUEENSIDE_TOKENS :: "string list" where
  "QUEENSIDE_TOKENS = [''queen'', ''long'']"

definition WRITTEN_NUMS :: "string \<rightharpoonup> string" where
  "WRITTEN_NUMS = map_of [(''one'', ''1''), (''two'', ''2''), (''three'', ''3''), (''four'', ''4''),
                          (''five'', ''5''), (''six'', ''6''), (''seven'', ''7''), (''eight'', ''8'')]"

text \<open>\<open>token_set & TOKENS\<close> as a truth value: some token of the request is in the set.\<close>

definition mentions :: "string list \<Rightarrow> string list \<Rightarrow> bool" where
  "mentions tokens keywords = list_ex (\<lambda>t. t \<in> set keywords) tokens"

text \<open>\<open>request.split()\<close>: the maximal runs of characters that are not whitespace.  A
  character of the model is a code point below 256; among these Python counts as
  whitespace the blank, the controls \<open>0x09 .. 0x0D\<close> and \<open>0x1C .. 0x1F\<close>, and \<open>0x85\<close> and
  \<open>0xA0\<close>.\<close>

definition is_space :: "char \<Rightarrow> bool" where
  "is_space c = (c \<in> set [CHR '' '', CHR 0x09, CHR 0x0A, CHR 0x0B, CHR 0x0C, CHR 0x0D,
                            CHR 0x1C, CHR 0x1D, CHR 0x1E, CHR 0x1F, CHR 0x85, CHR 0xA0])"

fun split_words :: "string \<Rightarrow> string \<Rightarrow> string list" where
  "split_words cur [] = (if cur = [] then [] else [cur])"
| "split_words cur (c # cs) =
     (if is_space c then (if cur = [] then split_words [] cs else cur # split_words [] cs)
      else split_words (cur @ [c]) cs)"

definition str_split :: "string \<Rightarrow> string list" where
  "str_split request = split_words [] request"

text \<open>
  The \<open>for\<close> loop of \<open>locations_in_tokens\<close>.  \<open>scan_tokens loc i tokens rest\<close> runs the loop
  from index \<open>i\<close>, where \<open>rest\<close> are the tokens from \<open>i\<close> on.  It returns the specification
  built so far and, when the loop ends by \<open>break\<close>, the slice \<open>tokens[i:]\<close> that the
  recursive call receives (\<open>i\<close> is moved past a token that is no piece, file or rank
  keyword).
\<close>

fun scan_tokens ::
  "SpecificSquares \<Rightarrow> nat \<Rightarrow> string list \<Rightarrow> string list \<Rightarrow>
     SpecificSquares \<times> string list option" where
  "scan_tokens loc i tokens [] = (loc, None)"
| "scan_tokens loc i tokens (token # rest) =
     (if has_key PIECES token \<and> \<not> ss_bool loc
      then scan_tokens (loc\<lparr>ss_piece := Some token\<rparr>) (i + 1) tokens rest
      else if token = ''on''
      then scan_tokens loc (i + 1) tokens rest
      else if has_key FILES token \<and> \<not> truthy (ss_file loc) \<and> \<not> truthy (ss_rank loc)
      then scan_tokens (loc\<lparr>ss_file := Some token\<rparr>) (i + 1) tokens rest
      else if has_key WRITTEN_NUMS token \<and> \<not> truthy (ss_rank loc)
      then scan_tokens (loc\<lparr>ss_rank := WRITTEN_NUMS token\<rparr>) (i + 1) tokens rest
      else
        (if \<not> (has_key PIECES token \<or> has_key FILES token \<or> has_key RANKS token)
         then (loc, Some (drop (i + 1) tokens))
         else (loc, Some (drop i tokens))))"

text \<open>The recursion may not come back (Python then stops it with \<open>RecursionError\<close>): the
  result is \<open>None\<close> in that case.  Python's limit on the depth of recursion is not part of
  the model: a list that the model returns is the program's result as long as the depth,
  one call per group of tokens, stays below that limit (about a thousand calls).\<close>

partial_function (option) locations_in_tokens ::
  "string list \<Rightarrow> bool \<Rightarrow> SpecificSquares list option" where
  "locations_in_tokens tokens turn' =
     (if tokens = [] then Some []
      else
        (case scan_tokens (SpecificSquares_init turn') 0 tokens tokens of
           (loc, None) \<Rightarrow> Some (if ss_bool loc then [loc] else [])
         | (loc, Some slice) \<Rightarrow>
             Option.bind (locations_in_tokens slice (\<not> turn'))
               (\<lambda>locations. Some (if ss_bool loc then loc # locations else locations))))"

declare locations_in_tokens.simps [code]

text \<open>The constructor \<open>SpecificSquares(color, piece, file, rank)\<close> with its assertions
  \<open>x is None or x in D\<close>.\<close>

definition none_or_key :: "(string \<rightharpoonup> 'v) \<Rightarrow> string option \<Rightarrow> bool" where
  "none_or_key d k = (case k of None \<Rightarrow> True | Some key \<Rightarrow> has_key d key)"

definition SpecificSquares_new ::
  "bool \<Rightarrow> string option \<Rightarrow> string option \<Rightarrow> string option \<Rightarrow> error + SpecificSquares" where
  "SpecificSquares_new c p f r =
     (if \<not> none_or_key PIECES p then Inl AssertionError
      else if \<not> none_or_key FILES f then Inl AssertionError
      else if \<not> none_or_key RANKS r then Inl AssertionError
      else Inr \<lparr>ss_color = c, ss_piece = p, ss_file = f, ss_rank = r\<rparr>)"

text \<open>\<open>chess.square_name\<close>, and \<open>take_last\<close>, which reads the engine's last-move record.\<close>

definition square_name :: "nat \<Rightarrow> string" where
  "square_name sq = [''abcdefgh'' ! square_file sq, ''12345678'' ! square_rank sq]"

definition take_last :: "SpecificSquares \<Rightarrow> Board \<Rightarrow> string option \<Rightarrow> error + CommandMove" where
  "take_last taker board say_promotes =
     (case peek board of
        Inl e \<Rightarrow> Inl e
      | Inr last_move \<Rightarrow>
          (let takee_square = square_name (to_square last_move)
           in case SpecificSquares_new (turn board) None
                     (Some [takee_square ! 0]) (Some [takee_square ! 1]) of
                Inl e \<Rightarrow> Inl e
              | Inr takee \<Rightarrow> Inr (CommandMove_init board taker takee True say_promotes)))"

datatype parsed_request = Inquiry string | Command BoardCommand

text \<open>The part of \<open>decipher_request\<close> that turns the specifications into a directional
  command.\<close>

definition build_command ::
  "Board \<Rightarrow> SpecificSquares list \<Rightarrow> bool \<Rightarrow> string option \<Rightarrow> error + CommandMove" where
  "build_command board locations does_take say_promotes =
     (if length locations = 1 then
        (let l0 = locations ! 0 in
         if truthy (ss_file l0) \<and> truthy (ss_rank l0) then
           (let to_where0 = l0;
                from_piece = (if truthy (ss_piece to_where0) then ss_piece to_where0
                              else Some ''pawn'')
            in case SpecificSquares_new (turn board) from_piece None None of
                 Inl e \<Rightarrow> Inl e
               | Inr from_where0 \<Rightarrow>
                   Inr (CommandMove_init board from_where0
                          (to_where0\<lparr>ss_color := \<not> turn board, ss_piece := None\<rparr>)
                          does_take say_promotes))
         else if does_take then take_last l0 board say_promotes
         else Inl AssertionError)
      else
        (case locations of
           l0 # l1 # _ \<Rightarrow> Inr (CommandMove_init board l0 l1 does_take say_promotes)
         | _ \<Rightarrow> Inl IndexError))"

definition decipher_request :: "rules_engine \<Rightarrow> string \<Rightarrow> Board \<Rightarrow> error + parsed_request" where
  "decipher_request E request board =
     (if request = ''why'' then Inr (Inquiry request)
      else
        (let tokens = str_split request in
         if ''castle'' \<in> set tokens then
           (let castle_command =
                  (if mentions tokens KINGSIDE_TOKENS then CastleCommand_init board (Some ''king'')
                   else if mentions tokens QUEENSIDE_TOKENS
                   then CastleCommand_init board (Some ''queen'')
                   else CastleCommand_init board None)
            in case castle_consider_moves E castle_command of
                 Inl e \<Rightarrow> Inl e
               | Inr c \<Rightarrow> Inr (Command (Castle c)))
         else
           (let does_take = mentions tokens TAKE_TOKENS;
                does_promote = mentions tokens PROMOTE_TOKENS;
                say_promotes = (if does_promote then Some (last tokens) else None)
            in case locations_in_tokens (if does_promote then butlast tokens else tokens)
                      (turn board) of
                 None \<Rightarrow> Inl RecursionError
               | Some locations \<Rightarrow>
                   (case build_command board locations does_take say_promotes of
                      Inl e \<Rightarrow> Inl e
                    | Inr command_move \<Rightarrow>
                        (case consider_moves E command_move of
                           Inl e \<Rightarrow> Inl e
                         | Inr c \<Rightarrow> Inr (Command (Directional c)))))))"


section \<open>Spoken feedback\<close>

text \<open>\<open>assistant(text)\<close> speaks one sentence; the model collects the sentences in the order
  in which they are spoken.\<close>

definition PIECE_SYMBOLS :: "char \<rightharpoonup> string" where
  "PIECE_SYMBOLS = map_of [(CHR ''N'', ''knight''), (CHR ''B'', ''bishop''), (CHR ''R'', ''rook''),
                           (CHR ''Q'', ''queen''), (CHR ''K'', ''king'')]"

definition spoken_char :: "char \<Rightarrow> string" where
  "spoken_char c =
     (case PIECE_SYMBOLS c of
        Some name \<Rightarrow> name
      | None \<Rightarrow>
          if c = CHR ''x'' then ''takes''
          else if c = CHR ''='' then ''equals''
          else if c = CHR ''+'' then ''check''
          else if c = CHR ''#'' then ''checkmate''
          else [c])"

fun join :: "string \<Rightarrow> string list \<Rightarrow> string" where
  "join sep [] = []"
| "join sep [w] = w"
| "join sep (w # ws) = w @ sep @ join sep ws"

definition speak_move :: "rules_engine \<Rightarrow> Move \<Rightarrow> Board \<Rightarrow> string list" where
  "speak_move E move board =
     (if san E board move = ''O-O'' then [''Kingside castles.'']
      else if san E board move = ''O-O-O'' then [''Queenside castles.'']
      else [join '' '' (map spoken_char (san E board move))])"

text \<open>
  \<open>explain_no_castle\<close>.  Each \<open>filter\<close> reads one attribute of every reject in turn; the
  result is the sentences spoken and the error that ended the function, if one did.
\<close>

fun filter_attr :: "('a \<Rightarrow> bool option) \<Rightarrow> 'a list \<Rightarrow> error + 'a list" where
  "filter_attr attr [] = Inr []"
| "filter_attr attr (x # xs) =
     (case attr x of
        None \<Rightarrow> Inl AttributeError
      | Some b \<Rightarrow>
          (case filter_attr attr xs of
             Inl e \<Rightarrow> Inl e
           | Inr ys \<Rightarrow> Inr (if b then x # ys else ys)))"

definition say_if_any ::
  "('a \<Rightarrow> bool option) \<Rightarrow> string \<Rightarrow> 'a list \<Rightarrow> string list \<times> error option \<Rightarrow>
     string list \<times> error option" where
  "say_if_any attr sentence rejects st =
     (case snd st of
        Some e \<Rightarrow> st
      | None \<Rightarrow>
          (case filter_attr attr rejects of
             Inl e \<Rightarrow> (fst st, Some e)
           | Inr matching \<Rightarrow>
               (if length matching \<noteq> 0 then fst st @ [sentence] else fst st, None)))"

definition NO_RIGHTS :: string where
  "NO_RIGHTS = ''You have already moved your king or rook.''"

definition PATH_BLOCKED :: string where
  "PATH_BLOCKED = ''The path between your king and rook is not clear of pieces.''"

definition STILL_IN_CHECK :: string where
  "STILL_IN_CHECK = ''Your king is still in check.''"

definition THROUGH_CHECK :: string where
  "THROUGH_CHECK = ''You're attempting to castle through check.''"

definition INTO_CHECK :: string where
  "INTO_CHECK = ''You're attempting to castle into check.''"

definition explain_no_castle :: "CastleCommand \<Rightarrow> string list \<times> error option" where
  "explain_no_castle castle_command =
     (let rejects = cc_rejected_moves castle_command
      in case filter_attr (\<lambda>move. map_option Not (right_to_castle move)) rejects of
           Inl e \<Rightarrow> ([], Some e)
         | Inr no_right \<Rightarrow>
             if length no_right \<noteq> 0 then ([NO_RIGHTS], None)
             else
               say_if_any into_check INTO_CHECK rejects
                 (say_if_any through_check THROUGH_CHECK rejects
                    (say_if_any (\<lambda>move. Some (in_check move)) STILL_IN_CHECK rejects
                       (say_if_any (\<lambda>move. map_option (\<lambda>m. m \<noteq> 0) (cm_blocking_pieces move))
                          PATH_BLOCKED rejects ([], None)))))"

section \<open>Responding to a command\<close>

text \<open>
  The orchestration layer owns the board and two module-level variables; \<open>spoken\<close> collects
  what the assistant says.  A command's own \<open>board\<close> attribute is a reference to the same
  board object, so the command kept in \<open>last_board_command\<close> shows the board after a push.
\<close>

record world =
  w_board :: Board
  last_spoken_command :: "string option"
  last_board_command :: "BoardCommand option"
  spoken :: "string list"

definition command_candidates :: "BoardCommand \<Rightarrow> Move list" where
  "command_candidates command =
     (case command of Directional c \<Rightarrow> candidate_moves c | Castle c \<Rightarrow> cc_candidate_moves c)"

definition command_has_rejects :: "BoardCommand \<Rightarrow> bool" where
  "command_has_rejects command =
     (case command of Directional c \<Rightarrow> rejected_moves c \<noteq> []
                    | Castle c \<Rightarrow> cc_rejected_moves c \<noteq> [])"

text \<open>The command's \<open>board\<close> attribute after the shared board object has changed.\<close>

definition command_with_board :: "BoardCommand \<Rightarrow> Board \<Rightarrow> BoardCommand" where
  "command_with_board command board =
     (case command of
        Directional c \<Rightarrow> Directional (c\<lparr>cmd_board := board\<rparr>)
      | Castle c \<Rightarrow> Castle (c\<lparr>cc_board := board\<rparr>))"

definition str_of :: "string option \<Rightarrow> string" where
  "str_of s = (case s of None \<Rightarrow> ''None'' | Some x \<Rightarrow> x)"

definition respond_to_command :: "rules_engine \<Rightarrow> BoardCommand \<Rightarrow> world \<Rightarrow> world" where
  "respond_to_command E command w =
     (let w1 = w\<lparr>last_board_command := Some command\<rparr>;
          candidates = command_candidates command
      in if candidates \<noteq> [] then
           (if length candidates = 1 then
              w1\<lparr>spoken := spoken w1 @ speak_move E (candidates ! 0) (w_board w1),
                 w_board := push E (w_board w1) (candidates ! 0),
                 last_board_command :=
                   Some (command_with_board command (push E (w_board w1) (candidates ! 0)))\<rparr>
            else
              w1\<lparr>spoken := spoken w1 @
                   [''The command '' @ str_of (last_spoken_command w1) @
                    '' is ambiguous. Could you be more specific?'']\<rparr>)
         else if command_has_rejects command then
           w1\<lparr>spoken := spoken w1 @
                [''The command '' @ str_of (last_spoken_command w1) @
                 '' does not match any legal moves.'']\<rparr>
         else w1)"

section \<open>The starting position\<close>

text \<open>
  The board of a new game, and the rules engine's answers on it: the twenty opening moves
  are the legal moves, none of them is a capture or a promotion, nothing is pinned, no king
  is in check, all castling rights stand and castling is not yet legal (the program parses
  no notation but the two castling ones).  \<open>start_engine\<close> answers for the starting
  position only; it serves as the engine wherever a statement is evaluated on that
  position.
\<close>

definition back_rank :: "piece_type list" where
  "back_rank = [ROOK, KNIGHT, BISHOP, QUEEN, KING, BISHOP, KNIGHT, ROOK]"

definition starting_pieces :: "nat \<Rightarrow> Piece option" where
  "starting_pieces sq =
     (if sq < 8 then Some \<lparr>piece_type = back_rank ! sq, color = WHITE\<rparr>
      else if sq < 16 then Some \<lparr>piece_type = PAWN, color = WHITE\<rparr>
      else if sq < 48 then None
      else if sq < 56 then Some \<lparr>piece_type = PAWN, color = BLACK\<rparr>
      else if sq < 64 then Some \<lparr>piece_type = back_rank ! (sq - 56), color = BLACK\<rparr>
      else None)"

definition starting_board :: Board where
  "starting_board =
     \<lparr>piece_map = starting_pieces, turn = WHITE,
      castling_rights = BB_SQUARES 0 OR BB_SQUARES 7 OR BB_SQUARES 56 OR BB_SQUARES 63,
      ep_square = None, move_stack = []\<rparr>"

definition opening_move :: "nat \<Rightarrow> nat \<Rightarrow> bool" where
  "opening_move a b =
     ((8 \<le> a \<and> a < 16 \<and> (b = a + 8 \<or> b = a + 16)) \<or>
      (a = 1 \<and> (b = 16 \<or> b = 18)) \<or> (a = 6 \<and> (b = 21 \<or> b = 23)))"

definition start_attacked :: "bool \<Rightarrow> nat \<Rightarrow> bool" where
  "start_attacked c sq =
     (if c = WHITE then (8 \<le> sq \<and> sq < 24) \<or> (1 \<le> sq \<and> sq \<le> 6)
      else (40 \<le> sq \<and> sq < 56) \<or> (57 \<le> sq \<and> sq \<le> 62))"

definition start_push :: "Board \<Rightarrow> Move \<Rightarrow> Board" where
  "start_push board m =
     board\<lparr>piece_map := (piece_map board)(to_square m := piece_map board (from_square m),
                                            from_square m := None),
           turn := \<not> turn board,
           ep_square := (if piece_map board (from_square m) = Some \<lparr>piece_type = PAWN, color = WHITE\<rparr>
                            \<and> to_square m = from_square m + 16
                         then Some (from_square m + 8) else None),
           move_stack := move_stack board @ [m]\<rparr>"

definition start_san :: "Board \<Rightarrow> Move \<Rightarrow> string" where
  "start_san board m =
     (if piece_map board (from_square m) = Some \<lparr>piece_type = KNIGHT, color = WHITE\<rparr>
      then CHR ''N'' # square_name (to_square m)
      else square_name (to_square m))"

definition start_engine :: rules_engine where
  "start_engine =
     \<lparr>find_move = (\<lambda>board a b promo.
         if promo = None \<and> opening_move a b
         then Some \<lparr>from_square = a, to_square = b, promotion = None\<rparr> else None),
      is_capture = (\<lambda>board m. False),
      is_attacked_by = (\<lambda>board c sq. start_attacked c sq),
      pin = (\<lambda>board c sq. BB_ALL),
      is_check = (\<lambda>board. False),
      has_kingside_castling_rights = (\<lambda>board c. True),
      has_queenside_castling_rights = (\<lambda>board c. True),
      parse_san = (\<lambda>board notation. None),
      san = start_san,
      push = start_push\<rparr>"


section \<open>Reference predicates\<close>

text \<open>
  The statements below compare the program with these descriptions of what a square set
  should contain.  A file or rank name stands for its index (\<open>a\<close> and \<open>1\<close> are 0).
\<close>

definition file_index :: "string \<rightharpoonup> nat" where
  "file_index = map_of [(''a'', 0), (''b'', 1), (''c'', 2), (''d'', 3),
                        (''e'', 4), (''f'', 5), (''g'', 6), (''h'', 7)]"

definition rank_index :: "string \<rightharpoonup> nat" where
  "rank_index = map_of [(''1'', 0), (''2'', 1), (''3'', 2), (''4'', 3),
                        (''5'', 4), (''6'', 5), (''7'', 6), (''8'', 7)]"

definition on_file :: "string option \<Rightarrow> nat \<Rightarrow> bool" where
  "on_file f sq = (case f of None \<Rightarrow> True | Some name \<Rightarrow> file_index name = Some (square_file sq))"

definition on_rank :: "string option \<Rightarrow> nat \<Rightarrow> bool" where
  "on_rank r sq = (case r of None \<Rightarrow> True | Some name \<Rightarrow> rank_index name = Some (square_rank sq))"

definition holds_kind :: "Board \<Rightarrow> bool \<Rightarrow> string option \<Rightarrow> nat \<Rightarrow> bool" where
  "holds_kind board c p sq =
     (case p of
        None \<Rightarrow> True
      | Some name \<Rightarrow>
          (case PIECES name of
             None \<Rightarrow> False
           | Some pt \<Rightarrow> piece_at board sq = Some \<lparr>piece_type = pt, color = c\<rparr>))"

text \<open>A square matches a specification: a bare file means a pawn of the given colour on
  that file; otherwise every attribute that is set must fit.  The colour is a condition
  only together with a piece kind (or the pawn of a bare file): without one, a square
  matches by file and rank whatever stands on it.\<close>

definition matches :: "SpecificSquares \<Rightarrow> Board \<Rightarrow> nat \<Rightarrow> bool" where
  "matches s board sq =
     (if ss_file s \<noteq> None \<and> ss_piece s = None \<and> ss_rank s = None
      then piece_at board sq = Some \<lparr>piece_type = PAWN, color = ss_color s\<rparr> \<and>
           on_file (ss_file s) sq
      else holds_kind board (ss_color s) (ss_piece s) sq \<and>
           on_file (ss_file s) sq \<and> on_rank (ss_rank s) sq)"

text \<open>The invariant that the constructor's assertions establish.\<close>

definition wf_spec :: "SpecificSquares \<Rightarrow> bool" where
  "wf_spec s =
     (none_or_key PIECES (ss_piece s) \<and> none_or_key FILES (ss_file s) \<and>
      none_or_key RANKS (ss_rank s))"

text \<open>The blocking squares as the docstring of \<open>blocking_squares\<close> describes them: the
  occupied squares strictly between origin and destination, and the destination when a
  piece of the mover's colour stands on it.\<close>

definition same_color_at :: "Board \<Rightarrow> nat \<Rightarrow> nat \<Rightarrow> bool" where
  "same_color_at board a b =
     (case piece_at board a of
        None \<Rightarrow> False
      | Some pa \<Rightarrow> (case piece_at board b of None \<Rightarrow> False | Some pb \<Rightarrow> color pa = color pb))"

definition blocking_squares_spec :: "Board \<Rightarrow> nat \<Rightarrow> nat \<Rightarrow> int" where
  "blocking_squares_spec board from_sq to_sq =
     squares_mask (\<lambda>sq. (strictly_between from_sq to_sq sq \<and> piece_at board sq \<noteq> None) \<or>
                         (sq = to_sq \<and> same_color_at board from_sq to_sq))"

text \<open>The pairs that a directional command enumerates, and the origin and destination of
  a rejected move.\<close>

definition resolved_pairs :: "CommandMove \<Rightarrow> (nat \<times> nat) list" where
  "resolved_pairs self =
     (case find_candidate_squares (from_where self) (cmd_board self) of
        Inl e \<Rightarrow> []
      | Inr from_squares \<Rightarrow>
          (case find_candidate_squares (to_where self) (cmd_board self) of
             Inl e \<Rightarrow> []
           | Inr to_squares \<Rightarrow> square_pairs from_squares to_squares))"

definition promote_piece_of :: "CommandMove \<Rightarrow> piece_type option" where
  "promote_piece_of self = (case promotes_to self of None \<Rightarrow> None | Some s \<Rightarrow> PIECES s)"

definition pair_candidate :: "rules_engine \<Rightarrow> CommandMove \<Rightarrow> nat \<times> nat \<Rightarrow> Move option" where
  "pair_candidate E self p =
     try_candidate E (cmd_board self) (captures self) (promote_piece_of self) (fst p) (snd p)"

definition reject_pair :: "RejectedMove \<Rightarrow> nat \<times> nat" where
  "reject_pair r = (from_square r, to_square r)"

text \<open>A rejected castle all of whose attributes were assigned where the program reads
  them.\<close>

definition assigned :: "CastleMove \<Rightarrow> bool" where
  "assigned r =
     (case right_to_castle r of
        None \<Rightarrow> False
      | Some right \<Rightarrow>
          if right then cm_blocking_pieces r \<noteq> None \<and> through_check r \<noteq> None \<and>
                        into_check r \<noteq> None
          else True)"

definition blocked :: "CastleMove \<Rightarrow> bool" where
  "blocked r = (case cm_blocking_pieces r of None \<Rightarrow> False | Some m \<Rightarrow> m \<noteq> 0)"

definition flagged :: "bool option \<Rightarrow> bool" where
  "flagged b = (b = Some True)"


section \<open>A position with the king in check\<close>

text \<open>
  The starting position with a black rook in place of the white pawn on e2 (square 12):
  the white king on e1 is in check, and bishop and knight still stand between king and
  rook.  For the queries that a castle request makes (castling rights, attacks on f1, g1,
  d1 and c1, legality of castling) the rules engine answers as on the starting position,
  except that the king is in check; \<open>check_engine\<close> serves for castle requests on this
  position only.
\<close>

definition check_board :: Board where
  "check_board =
     starting_board\<lparr>piece_map := starting_pieces(12 := Some \<lparr>piece_type = ROOK, color = BLACK\<rparr>)\<rparr>"

definition check_engine :: rules_engine where
  "check_engine = start_engine\<lparr>is_check := (\<lambda>board. True)\<rparr>"

section \<open>Properties\<close>

subsection \<open>Bitboard facts\<close>

lemma and_BB_SQUARES_iff: "(m AND BB_SQUARES sq \<noteq> 0) = bit m sq"
  by (simp add: BB_SQUARES_def push_bit_of_1 and_exp_eq_0_iff_not_bit)

lemma bit_BB_SQUARES: "bit (BB_SQUARES sq) n = (n = sq)"
  by (auto simp add: BB_SQUARES_def bit_exp_iff)

lemma bit_255: "bit (255 :: int) n = (n < 8)"
proof -
  have "bit (mask 8 :: int) n = (n < 8)"
    by (simp add: bit_mask_iff)
  then show ?thesis
    by (simp add: mask_eq_exp_minus_1)
qed

lemma bit_BB_RANKS: "bit (BB_RANKS i) n = (8 * i \<le> n \<and> n < 8 * i + 8)"
  by (auto simp add: BB_RANKS_def bit_push_bit_iff bit_255)

lemma bit_fold_squares:
  "bit (fold (\<lambda>sq m. if P sq then m OR BB_SQUARES sq else m) xs m0) n =
     (bit m0 n \<or> (n \<in> set xs \<and> P n))"
  by (induction xs arbitrary: m0) (auto simp add: bit_or_iff bit_BB_SQUARES)

lemma bit_squares_mask: "bit (squares_mask P) n = (n < 64 \<and> P n)"
  by (simp add: squares_mask_def bit_fold_squares)

lemma squares_mask_eqI:
  assumes "\<And>n. bit m n = (n < 64 \<and> P n)"
  shows "m = squares_mask P"
  by (rule bit_eqI) (simp add: bit_squares_mask assms)

lemma bit_BB_ALL: "bit BB_ALL n = (n < 64)"
proof -
  have "bit (mask 64 :: int) n = (n < 64)"
    by (simp add: bit_mask_iff)
  then show ?thesis
    by (simp add: BB_ALL_def mask_eq_exp_minus_1)
qed

lemma bit_64_bound:
  assumes "0 \<le> (x :: int)" "x < 2 ^ 64" "bit x n"
  shows "n < 64"
proof -
  have "take_bit 64 x = x"
    using assms(1,2) by (simp add: take_bit_int_eq_self)
  with assms(3) have "bit (take_bit 64 x) n"
    by simp
  then show ?thesis
    by (simp add: bit_take_bit_iff)
qed

lemma BB_FILES_low:
  "\<forall>i \<in> set [0..<8]. \<forall>n \<in> set [0..<64]. bit (BB_FILES i) n = (n mod 8 = i)"
  by code_simp

lemma BB_FILES_range: "\<forall>i \<in> set [0..<8]. 0 \<le> BB_FILES i \<and> BB_FILES i < 2 ^ 64"
  by code_simp

lemma bit_BB_FILES:
  assumes "i < 8"
  shows "bit (BB_FILES i) n = (n < 64 \<and> square_file n = i)"
proof (cases "n < 64")
  case True
  with assms have "i \<in> set [0..<8]" "n \<in> set [0..<64]"
    by simp_all
  with BB_FILES_low True show ?thesis
    unfolding square_file_def by blast
next
  case False
  from assms have "i \<in> set [0..<8]"
    by simp
  with BB_FILES_range have "0 \<le> BB_FILES i" "BB_FILES i < 2 ^ 64"
    by blast+
  then have "\<not> bit (BB_FILES i) n"
    using bit_64_bound False by blast
  with False show ?thesis
    by simp
qed

lemma bit_BB_RANKS_rank:
  assumes "i < 8"
  shows "bit (BB_RANKS i) n = (n < 64 \<and> square_rank n = i)"
  using assms unfolding bit_BB_RANKS square_rank_def by auto

lemma FILES_index: "FILES f = map_option BB_FILES (file_index f)"
  by (simp add: FILES_def file_index_def)

lemma RANKS_index: "RANKS r = map_option BB_RANKS (rank_index r)"
  by (simp add: RANKS_def rank_index_def)

lemma file_index_bound: "file_index f = Some i \<Longrightarrow> i < 8 \<and> f \<noteq> []"
  by (auto simp add: file_index_def split: if_splits)

lemma rank_index_bound: "rank_index r = Some i \<Longrightarrow> i < 8 \<and> r \<noteq> []"
  by (auto simp add: rank_index_def split: if_splits)

lemma PIECES_nonempty: "PIECES p = Some pt \<Longrightarrow> p \<noteq> []"
  by (auto simp add: PIECES_def split: if_splits)

lemma squares_of_squares_mask: "squares_of (squares_mask P) = filter P [0..<64]"
  unfolding squares_of_def by (rule filter_cong) (simp_all add: bit_squares_mask)

lemma squares_of_BB_ALL: "squares_of BB_ALL = [0..<64]"
  unfolding squares_of_def by (simp add: bit_BB_ALL)

lemma sum_eq_InlI: "isl x \<Longrightarrow> projl x = e \<Longrightarrow> x = Inl e"
  by (cases x) simp_all

subsection \<open>Feasibility of pawn moves\<close>

text \<open>
  Claim C2 (as amended).  For a pawn \<open>is_possible_move\<close> is true exactly for the one-step
  forward square and, when the pawn stands on its start rank (rank 2 for white, rank 7 for
  black; rank indices 1 and 6), for the two-step forward square.  It is false for every
  other destination, the two diagonal capture-pattern squares included.
\<close>

theorem pawn_possible_move_iff:
  "is_possible_move (Some \<lparr>piece_type = PAWN, color = c\<rparr>) a b =
     Inr (if c = WHITE then b = a + 8 \<or> (b = a + 16 \<and> square_rank a = 1)
          else a = b + 8 \<or> (a = b + 16 \<and> square_rank a = 6))"
proof (cases c)
  case True
  then show ?thesis
    by (auto simp add: is_possible_move_def Let_def and_BB_SQUARES_iff bit_or_iff bit_and_iff
          bit_push_bit_iff bit_BB_SQUARES bit_BB_RANKS square_rank_def)
next
  case False
  then show ?thesis
    by (auto simp add: is_possible_move_def Let_def and_BB_SQUARES_iff bit_or_iff bit_and_iff
          bit_drop_bit_eq bit_BB_SQUARES bit_BB_RANKS square_rank_def)
qed

text \<open>
  Claim C2 as stated fails: a white pawn on e4 (square 28) has d5 (square 35) as a
  capture-pattern square, the engine's pawn attack from e4, and \<open>is_possible_move\<close> is false
  there.
\<close>

theorem pawn_diagonal_not_possible:
  "is_possible_move (Some \<lparr>piece_type = PAWN, color = WHITE\<rparr>) 28 35 = Inr False \<and>
   lone_piece_attacks \<lparr>piece_type = PAWN, color = WHITE\<rparr> 28 35"
  by code_simp

subsection \<open>Resolving a specification to squares\<close>

lemma truthy_key:
  "none_or_key FILES f \<Longrightarrow> truthy f = (f \<noteq> None)"
  "none_or_key RANKS r \<Longrightarrow> truthy r = (r \<noteq> None)"
  "none_or_key PIECES p \<Longrightarrow> truthy p = (p \<noteq> None)"
  by (auto simp add: none_or_key_def has_key_def truthy_def FILES_index RANKS_index
        dest: file_index_bound rank_index_bound PIECES_nonempty split: option.splits)

lemma file_part:
  assumes "none_or_key FILES f"
  shows "\<exists>m. (if truthy f then subscript FILES f else Inr BB_ALL) = Inr m \<and>
             (\<forall>n. bit m n = (n < 64 \<and> on_file f n))"
proof (cases f)
  case None
  then show ?thesis
    by (simp add: truthy_def on_file_def bit_BB_ALL)
next
  case (Some name)
  with assms obtain i where i: "file_index name = Some i"
    by (auto simp add: none_or_key_def has_key_def FILES_index split: option.splits)
  then have "i < 8" "name \<noteq> []"
    using file_index_bound by blast+
  with Some i show ?thesis
    by (auto simp add: truthy_def subscript_def FILES_index on_file_def bit_BB_FILES)
qed

lemma rank_part:
  assumes "none_or_key RANKS r"
  shows "\<exists>m. (if truthy r then subscript RANKS r else Inr BB_ALL) = Inr m \<and>
             (\<forall>n. bit m n = (n < 64 \<and> on_rank r n))"
proof (cases r)
  case None
  then show ?thesis
    by (simp add: truthy_def on_rank_def bit_BB_ALL)
next
  case (Some name)
  with assms obtain i where i: "rank_index name = Some i"
    by (auto simp add: none_or_key_def has_key_def RANKS_index split: option.splits)
  then have "i < 8" "name \<noteq> []"
    using rank_index_bound by blast+
  with Some i show ?thesis
    by (auto simp add: truthy_def subscript_def RANKS_index on_rank_def bit_BB_RANKS_rank)
qed

lemma piece_part:
  assumes "none_or_key PIECES p"
  shows "\<exists>m. (if truthy p
               then (case subscript PIECES p of
                       Inl e \<Rightarrow> Inl e
                     | Inr pt \<Rightarrow> Inr (pieces_mask board pt c))
               else Inr BB_ALL) = Inr m \<and>
             (\<forall>n. bit m n = (n < 64 \<and> holds_kind board c p n))"
proof (cases p)
  case None
  then show ?thesis
    by (simp add: truthy_def holds_kind_def bit_BB_ALL)
next
  case (Some name)
  with assms obtain pt where pt: "PIECES name = Some pt"
    by (auto simp add: none_or_key_def has_key_def split: option.splits)
  then have "name \<noteq> []"
    using PIECES_nonempty by blast
  with Some pt show ?thesis
    by (simp add: truthy_def subscript_def holds_kind_def pieces_mask_def bit_squares_mask)
qed

lemma find_candidate_squares_matches:
  assumes "wf_spec s"
  shows "find_candidate_squares s board = Inr (squares_mask (matches s board))"
proof -
  from assms have wf: "none_or_key PIECES (ss_piece s)" "none_or_key FILES (ss_file s)"
    "none_or_key RANKS (ss_rank s)"
    by (simp_all add: wf_spec_def)
  from file_part [OF wf(2)] obtain fm where
    fm: "(if truthy (ss_file s) then subscript FILES (ss_file s) else Inr BB_ALL) = Inr fm"
    and fbit: "\<And>n. bit fm n = (n < 64 \<and> on_file (ss_file s) n)"
    by blast
  from rank_part [OF wf(3)] obtain rm where
    rm: "(if truthy (ss_rank s) then subscript RANKS (ss_rank s) else Inr BB_ALL) = Inr rm"
    and rbit: "\<And>n. bit rm n = (n < 64 \<and> on_rank (ss_rank s) n)"
    by blast
  from piece_part [OF wf(1)] obtain pm where
    pm: "(if truthy (ss_piece s)
          then (case subscript PIECES (ss_piece s) of
                  Inl e \<Rightarrow> Inl e
                | Inr pt \<Rightarrow> Inr (pieces_mask board pt (ss_color s)))
          else Inr BB_ALL) = Inr pm"
    and pbit: "\<And>n. bit pm n = (n < 64 \<and> holds_kind board (ss_color s) (ss_piece s) n)"
    by blast
  show ?thesis
  proof (cases "ss_file s \<noteq> None \<and> ss_piece s = None \<and> ss_rank s = None")
    case True
    then have "find_candidate_squares s board =
                 Inr (pieces_mask board PAWN (ss_color s) AND fm)"
      unfolding find_candidate_squares_def fm using wf by (simp add: truthy_key)
    also have "pieces_mask board PAWN (ss_color s) AND fm = squares_mask (matches s board)"
      using True
      by (intro squares_mask_eqI)
         (auto simp add: bit_and_iff pieces_mask_def bit_squares_mask fbit matches_def)
    finally show ?thesis .
  next
    case False
    then have "find_candidate_squares s board = Inr (((pm AND BB_ALL) AND fm) AND rm)"
      unfolding find_candidate_squares_def fm rm pm using wf by (auto simp add: truthy_key)
    also have "((pm AND BB_ALL) AND fm) AND rm = squares_mask (matches s board)"
      using False
      by (intro squares_mask_eqI)
         (auto simp add: bit_and_iff bit_BB_ALL fbit rbit pbit matches_def)
    finally show ?thesis .
  qed
qed


text \<open>
  Claim C5 (as amended).  For a specification that satisfies the constructor's
  assertions, \<open>find_candidate_squares\<close> returns exactly the squares that match it: the
  given colour's pawns on the file when only the file is set; otherwise the squares that
  fit every attribute that is set (the squares holding the given piece kind of the given
  colour, the given file, the given rank); and all 64 squares when no attribute is set.
  The colour is enforced only together with the piece kind or with the pawns of a bare
  file, not always: a specification without a piece kind matches squares by file and rank
  whatever stands on them.
\<close>

theorem find_candidate_squares_exact:
  assumes "wf_spec s"
  shows "find_candidate_squares s board = Inr (squares_mask (matches s board)) \<and>
         squares_of (squares_mask (matches s board)) = filter (matches s board) [0..<64] \<and>
         (ss_piece s = None \<and> ss_file s = None \<and> ss_rank s = None \<longrightarrow>
            find_candidate_squares s board = Inr BB_ALL \<and> squares_of BB_ALL = [0..<64])"
proof -
  have "squares_mask (matches s board) = BB_ALL"
    if "ss_piece s = None \<and> ss_file s = None \<and> ss_rank s = None"
    using that
    by (intro squares_mask_eqI [symmetric])
       (simp add: bit_BB_ALL matches_def holds_kind_def on_file_def on_rank_def)
  with find_candidate_squares_matches [OF assms, of board] show ?thesis
    by (simp add: squares_of_squares_mask squares_of_BB_ALL)
qed

text \<open>On the starting position the white knights stand on b1 and g1 (squares 1 and 6).\<close>

theorem find_candidate_squares_exact_witness:
  "wf_spec \<lparr>ss_color = WHITE, ss_piece = Some ''knight'', ss_file = None, ss_rank = None\<rparr> \<and>
   find_candidate_squares
     \<lparr>ss_color = WHITE, ss_piece = Some ''knight'', ss_file = None, ss_rank = None\<rparr>
     starting_board = Inr 66 \<and>
   squares_of 66 = [1, 6]"
proof -
  let ?s = "\<lparr>ss_color = WHITE, ss_piece = Some ''knight'', ss_file = None, ss_rank = None\<rparr>"
  have wf: "wf_spec ?s"
    by code_simp
  have m: "squares_mask (matches ?s starting_board) = 66"
    by code_simp
  have sq: "squares_of 66 = [1, 6]"
    by code_simp
  from find_candidate_squares_exact [OF wf, of starting_board] wf m sq show ?thesis
    by simp
qed

text \<open>
  Claim C5 as stated fails where it says that the colour is always enforced: on the
  starting position the specification of colour white and rank 7 resolves to the squares
  a7 to h7 (48 to 55), and every one of them holds a black pawn.
\<close>

theorem white_rank_seven_black_pawns:
  "find_candidate_squares
     \<lparr>ss_color = WHITE, ss_piece = None, ss_file = None, ss_rank = Some ''7''\<rparr>
     starting_board = Inr 71776119061217280 \<and>
   squares_of 71776119061217280 = [48, 49, 50, 51, 52, 53, 54, 55] \<and>
   map (piece_at starting_board) [48, 49, 50, 51, 52, 53, 54, 55] =
     replicate 8 (Some \<lparr>piece_type = PAWN, color = BLACK\<rparr>)"
  by code_simp

subsection \<open>Blocking squares\<close>

text \<open>
  Claim C4 on the starting position, for the rook on a1 (square 0) and the destination a3
  (square 16).  The move is feasible and the pawn on a2 (square 8) stands between, so the
  blocking squares should be \<open>{a2}\<close>, the bitboard 256.  The program adds the square's
  number 8 to the set as if it were a bitboard, and returns the bitboard 8, which is the
  set \<open>{d1}\<close> (square 3).
\<close>

theorem blocking_squares_a1_a3:
  "is_possible_move (piece_at starting_board 0) 0 16 = Inr True \<and>
   blocking_squares starting_board 0 16 = Inr 8 \<and> squares_of 8 = [3] \<and>
   blocking_squares_spec starting_board 0 16 = 256 \<and> squares_of 256 = [8]"
  by code_simp

subsection \<open>The token scan\<close>

lemma scan_digit:
  "scan_tokens (SpecificSquares_init c) 0 [''3''] [''3''] = (SpecificSquares_init c, Some [''3''])"
  by (simp add: SpecificSquares_init_def has_key_def PIECES_def FILES_def WRITTEN_NUMS_def
        RANKS_def ss_bool_def truthy_def)

lemma digit_never_returns:
  assumes "locations_in_tokens tokens c = Some y"
  shows "tokens \<noteq> [''3'']"
proof (rule locations_in_tokens.raw_induct [where P = "\<lambda>ts b r. ts \<noteq> [''3'']", OF _ assms])
  fix f :: "string list \<Rightarrow> bool \<Rightarrow> SpecificSquares list option"
  fix ts b r
  assume IH: "\<And>ts' b' r'. f ts' b' = Some r' \<Longrightarrow> ts' \<noteq> [''3'']"
  assume body:
    "(if ts = [] then Some []
      else case scan_tokens (SpecificSquares_init b) 0 ts ts of
             (loc, None) \<Rightarrow> Some (if ss_bool loc then [loc] else [])
           | (loc, Some slice) \<Rightarrow>
               Option.bind (f slice (\<not> b))
                 (\<lambda>locations. Some (if ss_bool loc then loc # locations else locations))) =
     Some r"
  show "ts \<noteq> [''3'']"
  proof
    assume "ts = [''3'']"
    with body have "Option.bind (f [''3''] (\<not> b))
        (\<lambda>locations. Some (if ss_bool (SpecificSquares_init b)
                             then SpecificSquares_init b # locations else locations)) = Some r"
      by (simp add: scan_digit del: scan_tokens.simps)
    then obtain r' where "f [''3''] (\<not> b) = Some r'"
      by (cases "f [''3''] (\<not> b)") simp_all
    with IH show False
      by blast
  qed
qed

lemma digit_token_None: "locations_in_tokens [''3''] c = None"
proof (cases "locations_in_tokens [''3''] c")
  case None
  then show ?thesis .
next
  case (Some y)
  with digit_never_returns show ?thesis
    by blast
qed

lemma not_ss_bool_fields:
  "\<not> ss_bool loc \<Longrightarrow> ss_piece loc = None \<and> ss_file loc = None \<and> ss_rank loc = None"
  by (auto simp add: ss_bool_def)

lemma scan_tokens_slice:
  assumes "scan_tokens loc i tokens rest = (loc', Some slice)"
    and "rest = drop i tokens"
    and "list_all (\<lambda>t. \<not> has_key RANKS t) rest"
    and "i = 0 \<longrightarrow> \<not> ss_bool loc"
  shows "length slice < length tokens \<and> set slice \<subseteq> set tokens"
  using assms
proof (induction rest arbitrary: loc i)
  case Nil
  then show ?case
    by simp
next
  case (Cons token rest)
  from Cons.prems(2) have len: "i < length tokens"
    by (metis drop_all list.distinct(1) not_le)
  from Cons.prems(2) have rest: "rest = drop (i + 1) tokens"
    by (metis Cons_nth_drop_Suc Suc_eq_plus1 len list.inject)
  from Cons.prems(3) have digit_free: "list_all (\<lambda>t. \<not> has_key RANKS t) rest"
    and token: "\<not> has_key RANKS token"
    by simp_all
  have next_ok: "i + 1 = 0 \<longrightarrow> \<not> ss_bool l" for l
    by simp
  have sub: "set (drop k tokens) \<subseteq> set tokens" for k
    by (rule set_drop_subset)
  consider
    (at_piece) "has_key PIECES token \<and> \<not> ss_bool loc" |
    (at_on) "\<not> (has_key PIECES token \<and> \<not> ss_bool loc)" "token = ''on''" |
    (at_file) "\<not> (has_key PIECES token \<and> \<not> ss_bool loc)" "token \<noteq> ''on''"
      "has_key FILES token \<and> \<not> truthy (ss_file loc) \<and> \<not> truthy (ss_rank loc)" |
    (at_rank) "\<not> (has_key PIECES token \<and> \<not> ss_bool loc)" "token \<noteq> ''on''"
      "\<not> (has_key FILES token \<and> \<not> truthy (ss_file loc) \<and> \<not> truthy (ss_rank loc))"
      "has_key WRITTEN_NUMS token \<and> \<not> truthy (ss_rank loc)" |
    (at_stop) "\<not> (has_key PIECES token \<and> \<not> ss_bool loc)" "token \<noteq> ''on''"
      "\<not> (has_key FILES token \<and> \<not> truthy (ss_file loc) \<and> \<not> truthy (ss_rank loc))"
      "\<not> (has_key WRITTEN_NUMS token \<and> \<not> truthy (ss_rank loc))"
    by blast
  then show ?case
  proof cases
    case at_piece
    with Cons.prems(1) have
      "scan_tokens (loc\<lparr>ss_piece := Some token\<rparr>) (i + 1) tokens rest = (loc', Some slice)"
      by (auto split: if_splits)
    from Cons.IH [OF this rest digit_free next_ok] show ?thesis .
  next
    case at_on
    with Cons.prems(1) have "scan_tokens loc (i + 1) tokens rest = (loc', Some slice)"
      by (auto split: if_splits)
    from Cons.IH [OF this rest digit_free next_ok] show ?thesis .
  next
    case at_file
    with Cons.prems(1) have
      "scan_tokens (loc\<lparr>ss_file := Some token\<rparr>) (i + 1) tokens rest = (loc', Some slice)"
      by (auto split: if_splits)
    from Cons.IH [OF this rest digit_free next_ok] show ?thesis .
  next
    case at_rank
    with Cons.prems(1) have
      "scan_tokens (loc\<lparr>ss_rank := WRITTEN_NUMS token\<rparr>) (i + 1) tokens rest =
         (loc', Some slice)"
      by (auto split: if_splits)
    from Cons.IH [OF this rest digit_free next_ok] show ?thesis .
  next
    case at_stop
    show ?thesis
    proof (cases "has_key PIECES token \<or> has_key FILES token \<or> has_key RANKS token")
      case False
      with at_stop Cons.prems(1) have "slice = drop (i + 1) tokens"
        by (auto split: if_splits)
      with len sub show ?thesis
        by simp
    next
      case True
      with at_stop Cons.prems(1) have slice: "slice = drop i tokens"
        by (auto split: if_splits)
      have "0 < i"
      proof (rule ccontr)
        assume "\<not> 0 < i"
        with Cons.prems(4) have fresh: "\<not> ss_bool loc"
          by simp
        with not_ss_bool_fields have "\<not> truthy (ss_file loc) \<and> \<not> truthy (ss_rank loc)"
          by (simp add: truthy_def)
        with fresh at_stop(1,3) True token show False
          by blast
      qed
      with slice len sub show ?thesis
        by simp
    qed
  qed
qed

lemma locations_in_tokens_returns_aux:
  "length tokens \<le> n \<Longrightarrow> list_all (\<lambda>t. \<not> has_key RANKS t) tokens \<Longrightarrow>
     \<exists>locations. locations_in_tokens tokens c = Some locations"
proof (induction n arbitrary: tokens c)
  case 0
  then have "tokens = []"
    by simp
  then show ?case
    by (subst locations_in_tokens.simps) simp
next
  case (Suc n)
  show ?case
  proof (cases "tokens = []")
    case True
    then show ?thesis
      by (subst locations_in_tokens.simps) simp
  next
    case False
    obtain loc r where scan: "scan_tokens (SpecificSquares_init c) 0 tokens tokens = (loc, r)"
      by (cases "scan_tokens (SpecificSquares_init c) 0 tokens tokens")
    show ?thesis
    proof (cases r)
      case None
      with scan False show ?thesis
        by (subst locations_in_tokens.simps) simp
    next
      case (Some slice)
      have fresh: "(0 :: nat) = 0 \<longrightarrow> \<not> ss_bool (SpecificSquares_init c)"
        by (simp add: ss_bool_def SpecificSquares_init_def)
      from scan Some have "scan_tokens (SpecificSquares_init c) 0 tokens tokens = (loc, Some slice)"
        by simp
      from scan_tokens_slice [OF this _ Suc.prems(2) fresh]
      have shorter: "length slice < length tokens" and sub: "set slice \<subseteq> set tokens"
        by simp_all
      from shorter Suc.prems(1) have "length slice \<le> n"
        by simp
      moreover from sub Suc.prems(2) have "list_all (\<lambda>t. \<not> has_key RANKS t) slice"
        by (auto simp add: list_all_iff)
      ultimately obtain locations where "locations_in_tokens slice (\<not> c) = Some locations"
        using Suc.IH by blast
      with scan Some False show ?thesis
        by (subst locations_in_tokens.simps) simp
    qed
  qed
qed

text \<open>
  Where the token scan does come back (X1): for every token list without a digit token
  (a key of \<open>RANKS\<close>), \<open>locations_in_tokens\<close> returns a list.  Each recursive call then
  receives a strictly shorter slice.
\<close>

theorem locations_in_tokens_returns:
  assumes "list_all (\<lambda>t. \<not> has_key RANKS t) tokens"
  shows "\<exists>locations. locations_in_tokens tokens c = Some locations"
  using locations_in_tokens_returns_aux [OF le_refl assms] .

text \<open>The tokens of \<open>knight to f three\<close> are such a list.\<close>

theorem locations_in_tokens_returns_witness:
  "list_all (\<lambda>t. \<not> has_key RANKS t) [''knight'', ''to'', ''f'', ''three''] \<and>
   locations_in_tokens [''knight'', ''to'', ''f'', ''three''] WHITE =
     Some [\<lparr>ss_color = WHITE, ss_piece = Some ''knight'', ss_file = None, ss_rank = None\<rparr>,
           \<lparr>ss_color = BLACK, ss_piece = None, ss_file = Some ''f'', ss_rank = Some ''3''\<rparr>]"
proof -
  have h: "list_all (\<lambda>t. \<not> has_key RANKS t) [''knight'', ''to'', ''f'', ''three'']"
    by code_simp
  from locations_in_tokens_returns [OF h, of WHITE] obtain locations where
    l: "locations_in_tokens [''knight'', ''to'', ''f'', ''three''] WHITE = Some locations"
    by blast
  have "locations_in_tokens [''knight'', ''to'', ''f'', ''three''] WHITE =
     Some [\<lparr>ss_color = WHITE, ss_piece = Some ''knight'', ss_file = None, ss_rank = None\<rparr>,
           \<lparr>ss_color = BLACK, ss_piece = None, ss_file = Some ''f'', ss_rank = Some ''3''\<rparr>]"
    by code_simp
  with h l show ?thesis
    by simp
qed

lemma split_3: "str_split ''3'' = [''3'']"
  by code_simp

lemma mentions_3: "mentions [''3''] TAKE_TOKENS = False \<and> mentions [''3''] PROMOTE_TOKENS = False"
  by code_simp

lemma digit_request_fails: "decipher_request E ''3'' board = Inl RecursionError"
  by (simp add: decipher_request_def split_3 mentions_3 digit_token_None)

text \<open>
  Claim C10 at the token list \<open>['3']\<close>.  The token is a key of \<open>RANKS\<close> but not of
  \<open>WRITTEN_NUMS\<close>: no branch of the loop takes it, and because it counts as a rank keyword
  the recursive call receives \<open>tokens[0:]\<close>, the same list.  The recursion never comes back
  with a list; in Python it ends in \<open>RecursionError\<close>, and so does the request \<open>3\<close>.
\<close>

theorem digit_token_no_result:
  "locations_in_tokens [''3''] c = None \<and>
   decipher_request E ''3'' board = Inl RecursionError"
  by (simp add: digit_token_None digit_request_fails)

lemma split_pawn_takes: "str_split ''pawn takes'' = [''pawn'', ''takes'']"
  by code_simp

lemma mentions_pawn_takes:
  "mentions [''pawn'', ''takes''] TAKE_TOKENS = True \<and>
   mentions [''pawn'', ''takes''] PROMOTE_TOKENS = False"
  by code_simp

lemma locations_pawn_takes:
  "locations_in_tokens [''pawn'', ''takes''] c =
     Some [\<lparr>ss_color = c, ss_piece = Some ''pawn'', ss_file = None, ss_rank = None\<rparr>]"
  by code_simp

lemma take_last_empty: "move_stack board = [] \<Longrightarrow> take_last taker board p = Inl IndexError"
  by (simp add: take_last_def peek_def)

text \<open>
  Claim C8 at the request \<open>pawn takes\<close> on the starting position, for any rules engine.
  The parse gives one specification without file and rank, capture intent is set, and
  \<open>take_last\<close> reads the last move of an empty move stack: the \<open>IndexError\<close> of that read
  is what the request ends with, and nothing catches it.
\<close>

theorem takes_without_history: "decipher_request E ''pawn takes'' starting_board = Inl IndexError \<and>
   take_last taker starting_board p = Inl IndexError"
  by (simp add: decipher_request_def split_pawn_takes mentions_pawn_takes locations_pawn_takes
        build_command_def truthy_def take_last_empty starting_board_def)

lemma RejectedMove_init_empty_origin:
  "piece_at board a = None \<Longrightarrow> RejectedMove_init E board a b = Inl AttributeError"
  by (simp add: RejectedMove_init_def is_possible_move_def)

subsection \<open>A request in spoken form\<close>

lemma split_e_two_e_four: "str_split ''e two e four'' = [''e'', ''two'', ''e'', ''four'']"
  by code_simp

lemma mentions_e_two_e_four:
  "mentions [''e'', ''two'', ''e'', ''four''] TAKE_TOKENS = False \<and>
   mentions [''e'', ''two'', ''e'', ''four''] PROMOTE_TOKENS = False"
  by code_simp

lemma locations_e_two_e_four:
  "locations_in_tokens [''e'', ''two'', ''e'', ''four''] c =
     Some [\<lparr>ss_color = c, ss_piece = None, ss_file = Some ''e'', ss_rank = Some ''2''\<rparr>,
           \<lparr>ss_color = \<not> c, ss_piece = None, ss_file = Some ''e'', ss_rank = Some ''4''\<rparr>]"
  by code_simp

lemma squares_e2:
  "find_candidate_squares
     \<lparr>ss_color = c, ss_piece = None, ss_file = Some ''e'', ss_rank = Some ''2''\<rparr> board = Inr 4096"
  by code_simp

lemma squares_e4:
  "find_candidate_squares
     \<lparr>ss_color = c, ss_piece = None, ss_file = Some ''e'', ss_rank = Some ''4''\<rparr> board =
   Inr 268435456"
  by code_simp

lemma pairs_e2_e4: "square_pairs 4096 268435456 = [(12, 28)]"
  by code_simp

lemma consider_e2_e4:
  assumes "find_move E starting_board 12 28 None = Some m"
  shows "consider_moves E (CommandMove_init starting_board
          \<lparr>ss_color = WHITE, ss_piece = None, ss_file = Some ''e'', ss_rank = Some ''2''\<rparr>
          \<lparr>ss_color = BLACK, ss_piece = None, ss_file = Some ''e'', ss_rank = Some ''4''\<rparr>
          False None) =
        Inr \<lparr>cmd_board = starting_board, candidate_moves = [m], rejected_moves = [],
              from_where = \<lparr>ss_color = WHITE, ss_piece = None, ss_file = Some ''e'',
                            ss_rank = Some ''2''\<rparr>,
              to_where = \<lparr>ss_color = BLACK, ss_piece = None, ss_file = Some ''e'',
                          ss_rank = Some ''4''\<rparr>,
              captures = False, promotes_to = None\<rparr>"
  by (simp add: consider_moves_def CommandMove_init_def squares_e2 squares_e4 pairs_e2_e4
        try_candidate_def assms)

lemma start_finds_e2_e4:
  "find_move start_engine starting_board 12 28 None =
     Some \<lparr>from_square = 12, to_square = 28, promotion = None\<rparr>"
  by (simp add: start_engine_def opening_move_def)


text \<open>
  Claim C7 (as amended).  On the starting position the spoken request \<open>e two e four\<close>
  resolves to exactly one candidate and no reject; the candidate is the move that the rules
  engine itself gives for e2 (square 12) to e4 (square 28); and responding to the command
  leaves the board that the engine's \<open>push\<close> of that move gives.
\<close>

theorem e_two_e_four_round_trip:
  assumes "find_move E starting_board 12 28 None = Some m"
  shows "decipher_request E ''e two e four'' starting_board =
           Inr (Command (Directional
             \<lparr>cmd_board = starting_board, candidate_moves = [m], rejected_moves = [],
              from_where = \<lparr>ss_color = WHITE, ss_piece = None, ss_file = Some ''e'',
                            ss_rank = Some ''2''\<rparr>,
              to_where = \<lparr>ss_color = BLACK, ss_piece = None, ss_file = Some ''e'',
                          ss_rank = Some ''4''\<rparr>,
              captures = False, promotes_to = None\<rparr>)) \<and>
         w_board (respond_to_command E (Directional
             \<lparr>cmd_board = starting_board, candidate_moves = [m], rejected_moves = [],
              from_where = \<lparr>ss_color = WHITE, ss_piece = None, ss_file = Some ''e'',
                            ss_rank = Some ''2''\<rparr>,
              to_where = \<lparr>ss_color = BLACK, ss_piece = None, ss_file = Some ''e'',
                          ss_rank = Some ''4''\<rparr>,
              captures = False, promotes_to = None\<rparr>) w) = push E (w_board w) m"
proof -
  have t: "turn starting_board = WHITE"
    by (simp add: starting_board_def)
  have "build_command starting_board
          [\<lparr>ss_color = WHITE, ss_piece = None, ss_file = Some ''e'', ss_rank = Some ''2''\<rparr>,
           \<lparr>ss_color = BLACK, ss_piece = None, ss_file = Some ''e'', ss_rank = Some ''4''\<rparr>]
          False None =
        Inr (CommandMove_init starting_board
          \<lparr>ss_color = WHITE, ss_piece = None, ss_file = Some ''e'', ss_rank = Some ''2''\<rparr>
          \<lparr>ss_color = BLACK, ss_piece = None, ss_file = Some ''e'', ss_rank = Some ''4''\<rparr>
          False None)"
    by (simp add: build_command_def)
  moreover have "consider_moves E (CommandMove_init starting_board
          \<lparr>ss_color = WHITE, ss_piece = None, ss_file = Some ''e'', ss_rank = Some ''2''\<rparr>
          \<lparr>ss_color = BLACK, ss_piece = None, ss_file = Some ''e'', ss_rank = Some ''4''\<rparr>
          False None) =
        Inr \<lparr>cmd_board = starting_board, candidate_moves = [m], rejected_moves = [],
              from_where = \<lparr>ss_color = WHITE, ss_piece = None, ss_file = Some ''e'',
                            ss_rank = Some ''2''\<rparr>,
              to_where = \<lparr>ss_color = BLACK, ss_piece = None, ss_file = Some ''e'',
                          ss_rank = Some ''4''\<rparr>,
              captures = False, promotes_to = None\<rparr>"
    by (simp add: consider_moves_def CommandMove_init_def squares_e2 squares_e4 pairs_e2_e4
          try_candidate_def assms)
  ultimately have "decipher_request E ''e two e four'' starting_board =
           Inr (Command (Directional
             \<lparr>cmd_board = starting_board, candidate_moves = [m], rejected_moves = [],
              from_where = \<lparr>ss_color = WHITE, ss_piece = None, ss_file = Some ''e'',
                            ss_rank = Some ''2''\<rparr>,
              to_where = \<lparr>ss_color = BLACK, ss_piece = None, ss_file = Some ''e'',
                          ss_rank = Some ''4''\<rparr>,
              captures = False, promotes_to = None\<rparr>))"
    by (simp add: decipher_request_def split_e_two_e_four mentions_e_two_e_four
          locations_e_two_e_four t)
  then show ?thesis
    by (simp add: respond_to_command_def command_candidates_def Let_def)
qed

text \<open>With the engine of the starting position that move is e2-e4.\<close>

theorem e_two_e_four_round_trip_witness:
  "find_move start_engine starting_board 12 28 None =
     Some \<lparr>from_square = 12, to_square = 28, promotion = None\<rparr> \<and>
   decipher_request start_engine ''e two e four'' starting_board =
           Inr (Command (Directional
             \<lparr>cmd_board = starting_board,
              candidate_moves = [\<lparr>from_square = 12, to_square = 28, promotion = None\<rparr>],
              rejected_moves = [],
              from_where = \<lparr>ss_color = WHITE, ss_piece = None, ss_file = Some ''e'',
                            ss_rank = Some ''2''\<rparr>,
              to_where = \<lparr>ss_color = BLACK, ss_piece = None, ss_file = Some ''e'',
                          ss_rank = Some ''4''\<rparr>,
              captures = False, promotes_to = None\<rparr>))"
proof -
  have h: "find_move start_engine starting_board 12 28 None =
             Some \<lparr>from_square = 12, to_square = 28, promotion = None\<rparr>"
    by (simp add: start_engine_def opening_move_def)
  from e_two_e_four_round_trip [OF h] h show ?thesis
    by simp
qed

text \<open>
  Claim C7 as stated fails: \<open>e2\<close> and \<open>e4\<close> are no keywords of the parser, which takes
  ranks as number words.  The request \<open>e2 e4\<close> gives no specification at all, and reading
  \<open>locations[0]\<close> raises \<open>IndexError\<close>.
\<close>

theorem e2_e4_literal_fails:
  "decipher_request start_engine ''e2 e4'' starting_board = Inl IndexError"
  by (rule sum_eq_InlI; code_simp)

subsection \<open>Candidates and rejects\<close>

lemma RejectedMove_init_pair:
  "RejectedMove_init E board a b = Inr r \<Longrightarrow> reject_pair r = (a, b)"
  by (auto simp add: RejectedMove_init_def reject_pair_def Let_def
        split: sum.splits option.splits)

lemma consider_pairs_split:
  "consider_pairs E board capt promo ps cands rejs = Inr (cs, rs) \<Longrightarrow>
     cs = cands @ List.map_filter (\<lambda>p. try_candidate E board capt promo (fst p) (snd p)) ps \<and>
     map reject_pair rs =
       map reject_pair rejs @
       filter (\<lambda>p. try_candidate E board capt promo (fst p) (snd p) = None) ps"
proof (induction ps arbitrary: cands rejs)
  case Nil
  then show ?case
    by (simp add: List.map_filter_simps)
next
  case (Cons p ps)
  obtain a b where p: "p = (a, b)"
    by (cases p)
  show ?case
  proof (cases "try_candidate E board capt promo a b")
    case None
    with Cons.prems p obtain r where r: "RejectedMove_init E board a b = Inr r"
      and rest: "consider_pairs E board capt promo ps cands (rejs @ [r]) = Inr (cs, rs)"
      by (auto split: sum.splits)
    from Cons.IH [OF rest] RejectedMove_init_pair [OF r] None p show ?thesis
      by (simp add: List.map_filter_simps)
  next
    case (Some c)
    with Cons.prems p have
      rest: "consider_pairs E board capt promo ps (cands @ [c]) rejs = Inr (cs, rs)"
      by simp
    from Cons.IH [OF rest] Some p show ?thesis
      by (simp add: List.map_filter_simps)
  qed
qed

lemma length_map_filter_compl:
  "length (List.map_filter f xs) + length (filter (\<lambda>x. f x = None) xs) = length xs"
  by (induction xs) (auto simp add: List.map_filter_simps split: option.splits)

lemma distinct_squares_of: "distinct (squares_of m)"
  by (simp add: squares_of_def)

lemma distinct_square_pairs: "distinct (square_pairs m n)"
  by (simp add: square_pairs_def distinct_product distinct_squares_of)

lemma distinct_resolved_pairs: "distinct (resolved_pairs self)"
  by (simp add: resolved_pairs_def distinct_square_pairs split: sum.splits)

lemma pair_candidate_eq:
  "pair_candidate E self =
     (\<lambda>p. try_candidate E (cmd_board self) (captures self) (promote_piece_of self)
            (fst p) (snd p))"
  by (rule ext) (simp add: pair_candidate_def)

text \<open>
  Claim C1 (as amended).  When \<open>consider_moves\<close> returns, every pair of the product of
  origin and destination squares went to exactly one of the two lists, in the order of the
  iteration: the candidates are the moves of the pairs for which the \<open>try\<close> block gave a
  move, the rejects are the remaining pairs, the pairs are distinct and the two lengths add
  up to the number of pairs.  A pair whose move is legal but no capture while capture
  intent is set is among the rejects.
\<close>

theorem consider_moves_partition:
  assumes "consider_moves E self = Inr c"
  shows "candidate_moves c = List.map_filter (pair_candidate E self) (resolved_pairs self) \<and>
         map reject_pair (rejected_moves c) =
           filter (\<lambda>p. pair_candidate E self p = None) (resolved_pairs self) \<and>
         distinct (resolved_pairs self) \<and>
         length (candidate_moves c) + length (rejected_moves c) = length (resolved_pairs self) \<and>
         (\<forall>p \<in> set (resolved_pairs self). \<forall>m.
            captures self \<and>
            find_move E (cmd_board self) (fst p) (snd p) (promote_piece_of self) = Some m \<and>
            \<not> is_capture E (cmd_board self) m \<longrightarrow>
            p \<in> set (map reject_pair (rejected_moves c)))"
proof -
  from assms obtain fs ts cs rs where
    fs: "find_candidate_squares (from_where self) (cmd_board self) = Inr fs" and
    ts: "find_candidate_squares (to_where self) (cmd_board self) = Inr ts" and
    loop: "consider_pairs E (cmd_board self) (captures self) (promote_piece_of self)
             (square_pairs fs ts) [] [] = Inr (cs, rs)" and
    c: "c = self\<lparr>candidate_moves := cs, rejected_moves := rs\<rparr>"
    by (auto simp add: consider_moves_def promote_piece_of_def Let_def split: sum.splits)
  have pairs: "resolved_pairs self = square_pairs fs ts"
    by (simp add: resolved_pairs_def fs ts)
  from consider_pairs_split [OF loop] have
    cands: "cs = List.map_filter (pair_candidate E self) (resolved_pairs self)" and
    rejs: "map reject_pair rs =
             filter (\<lambda>p. pair_candidate E self p = None) (resolved_pairs self)"
    by (simp_all add: pairs pair_candidate_eq)
  have len: "length cs + length rs = length (resolved_pairs self)"
  proof -
    have "length rs = length (map reject_pair rs)"
      by simp
    with cands rejs length_map_filter_compl [of "pair_candidate E self" "resolved_pairs self"]
    show ?thesis
      by simp
  qed
  have dropped: "p \<in> set (map reject_pair rs)"
    if "p \<in> set (resolved_pairs self)" "captures self"
      "find_move E (cmd_board self) (fst p) (snd p) (promote_piece_of self) = Some m"
      "\<not> is_capture E (cmd_board self) m" for p m
  proof -
    from that(2-4) have "pair_candidate E self p = None"
      by (simp add: pair_candidate_def try_candidate_def)
    with that(1) rejs show ?thesis
      by simp
  qed
  from cands rejs len dropped distinct_resolved_pairs [of self] show ?thesis
    unfolding c by auto
qed

lemma split_e_two_takes: "str_split ''e two takes e four'' = [''e'', ''two'', ''takes'', ''e'', ''four'']"
  by code_simp

lemma mentions_e_two_takes:
  "mentions [''e'', ''two'', ''takes'', ''e'', ''four''] TAKE_TOKENS = True \<and>
   mentions [''e'', ''two'', ''takes'', ''e'', ''four''] PROMOTE_TOKENS = False"
  by code_simp

lemma locations_e_two_takes:
  "locations_in_tokens [''e'', ''two'', ''takes'', ''e'', ''four''] c =
     Some [\<lparr>ss_color = c, ss_piece = None, ss_file = Some ''e'', ss_rank = Some ''2''\<rparr>,
           \<lparr>ss_color = \<not> c, ss_piece = None, ss_file = Some ''e'', ss_rank = Some ''4''\<rparr>]"
  by code_simp

lemma possible_e2_e4: "is_possible_move (piece_at starting_board 12) 12 28 = Inr True"
  by code_simp

lemma blocking_e2_e4: "blocking_squares starting_board 12 28 = Inr 0"
  by code_simp

lemma pieces_e2_e4:
  "piece_at starting_board 12 = Some \<lparr>piece_type = PAWN, color = WHITE\<rparr> \<and>
   piece_at starting_board 28 = None"
  by code_simp

lemma reject_e2_e4:
  "RejectedMove_init start_engine starting_board 12 28 =
     Inr \<lparr>from_square = 12, to_square = 28, promotion = None, possible = True,
          rm_captures = False, rm_blocking_pieces = 0, still_in_check = False,
          absolute_pin = False\<rparr>"
proof -
  have t: "turn starting_board = WHITE"
    by (simp add: starting_board_def)
  from possible_e2_e4 show ?thesis
    by (simp add: RejectedMove_init_def blocking_e2_e4 pieces_e2_e4 start_engine_def
          start_attacked_def t BB_ALL_def)
qed

lemma consider_e2_takes_e4:
  "consider_moves start_engine (CommandMove_init starting_board
      \<lparr>ss_color = WHITE, ss_piece = None, ss_file = Some ''e'', ss_rank = Some ''2''\<rparr>
      \<lparr>ss_color = BLACK, ss_piece = None, ss_file = Some ''e'', ss_rank = Some ''4''\<rparr>
      True None) =
   Inr \<lparr>cmd_board = starting_board, candidate_moves = [],
        rejected_moves =
          [\<lparr>from_square = 12, to_square = 28, promotion = None, possible = True,
            rm_captures = False, rm_blocking_pieces = 0, still_in_check = False,
            absolute_pin = False\<rparr>],
        from_where = \<lparr>ss_color = WHITE, ss_piece = None, ss_file = Some ''e'',
                      ss_rank = Some ''2''\<rparr>,
        to_where = \<lparr>ss_color = BLACK, ss_piece = None, ss_file = Some ''e'',
                    ss_rank = Some ''4''\<rparr>,
        captures = True, promotes_to = None\<rparr>"
proof -
  have "try_candidate start_engine starting_board True None 12 28 = None"
    by (simp add: try_candidate_def start_engine_def opening_move_def)
  then show ?thesis
    by (simp add: consider_moves_def CommandMove_init_def squares_e2 squares_e4 pairs_e2_e4
          reject_e2_e4)
qed

text \<open>
  Claim C1 as stated fails at the request \<open>e two takes e four\<close> on the starting position:
  e2-e4 is legal and no capture, capture intent is set, and the pair is not dropped; it is
  in the list of rejects.
\<close>

theorem capture_intent_pair_rejected:
  "find_move start_engine starting_board 12 28 None =
     Some \<lparr>from_square = 12, to_square = 28, promotion = None\<rparr> \<and>
   \<not> is_capture start_engine starting_board \<lparr>from_square = 12, to_square = 28, promotion = None\<rparr> \<and>
   decipher_request start_engine ''e two takes e four'' starting_board =
     Inr (Command (Directional
       \<lparr>cmd_board = starting_board, candidate_moves = [],
        rejected_moves =
          [\<lparr>from_square = 12, to_square = 28, promotion = None, possible = True,
            rm_captures = False, rm_blocking_pieces = 0, still_in_check = False,
            absolute_pin = False\<rparr>],
        from_where = \<lparr>ss_color = WHITE, ss_piece = None, ss_file = Some ''e'',
                      ss_rank = Some ''2''\<rparr>,
        to_where = \<lparr>ss_color = BLACK, ss_piece = None, ss_file = Some ''e'',
                    ss_rank = Some ''4''\<rparr>,
        captures = True, promotes_to = None\<rparr>))"
proof -
  have t: "turn starting_board = WHITE"
    by (simp add: starting_board_def)
  have "build_command starting_board
          [\<lparr>ss_color = WHITE, ss_piece = None, ss_file = Some ''e'', ss_rank = Some ''2''\<rparr>,
           \<lparr>ss_color = BLACK, ss_piece = None, ss_file = Some ''e'', ss_rank = Some ''4''\<rparr>]
          True None =
        Inr (CommandMove_init starting_board
          \<lparr>ss_color = WHITE, ss_piece = None, ss_file = Some ''e'', ss_rank = Some ''2''\<rparr>
          \<lparr>ss_color = BLACK, ss_piece = None, ss_file = Some ''e'', ss_rank = Some ''4''\<rparr>
          True None)"
    by (simp add: build_command_def)
  then have "decipher_request start_engine ''e two takes e four'' starting_board =
     Inr (Command (Directional
       \<lparr>cmd_board = starting_board, candidate_moves = [],
        rejected_moves =
          [\<lparr>from_square = 12, to_square = 28, promotion = None, possible = True,
            rm_captures = False, rm_blocking_pieces = 0, still_in_check = False,
            absolute_pin = False\<rparr>],
        from_where = \<lparr>ss_color = WHITE, ss_piece = None, ss_file = Some ''e'',
                      ss_rank = Some ''2''\<rparr>,
        to_where = \<lparr>ss_color = BLACK, ss_piece = None, ss_file = Some ''e'',
                    ss_rank = Some ''4''\<rparr>,
        captures = True, promotes_to = None\<rparr>))"
    by (simp add: decipher_request_def split_e_two_takes mentions_e_two_takes
          locations_e_two_takes t consider_e2_takes_e4)
  then show ?thesis
    by (simp add: start_engine_def opening_move_def)
qed

text \<open>The same command as an instance of the amended claim.\<close>

theorem consider_moves_partition_witness:
  "consider_moves start_engine (CommandMove_init starting_board
      \<lparr>ss_color = WHITE, ss_piece = None, ss_file = Some ''e'', ss_rank = Some ''2''\<rparr>
      \<lparr>ss_color = BLACK, ss_piece = None, ss_file = Some ''e'', ss_rank = Some ''4''\<rparr>
      True None) =
   Inr \<lparr>cmd_board = starting_board, candidate_moves = [],
        rejected_moves =
          [\<lparr>from_square = 12, to_square = 28, promotion = None, possible = True,
            rm_captures = False, rm_blocking_pieces = 0, still_in_check = False,
            absolute_pin = False\<rparr>],
        from_where = \<lparr>ss_color = WHITE, ss_piece = None, ss_file = Some ''e'',
                      ss_rank = Some ''2''\<rparr>,
        to_where = \<lparr>ss_color = BLACK, ss_piece = None, ss_file = Some ''e'',
                    ss_rank = Some ''4''\<rparr>,
        captures = True, promotes_to = None\<rparr> \<and>
   resolved_pairs (CommandMove_init starting_board
      \<lparr>ss_color = WHITE, ss_piece = None, ss_file = Some ''e'', ss_rank = Some ''2''\<rparr>
      \<lparr>ss_color = BLACK, ss_piece = None, ss_file = Some ''e'', ss_rank = Some ''4''\<rparr>
      True None) = [(12, 28)] \<and>
   List.map_filter (pair_candidate start_engine (CommandMove_init starting_board
      \<lparr>ss_color = WHITE, ss_piece = None, ss_file = Some ''e'', ss_rank = Some ''2''\<rparr>
      \<lparr>ss_color = BLACK, ss_piece = None, ss_file = Some ''e'', ss_rank = Some ''4''\<rparr>
      True None)) [(12, 28)] = [] \<and>
   filter (\<lambda>p. pair_candidate start_engine (CommandMove_init starting_board
      \<lparr>ss_color = WHITE, ss_piece = None, ss_file = Some ''e'', ss_rank = Some ''2''\<rparr>
      \<lparr>ss_color = BLACK, ss_piece = None, ss_file = Some ''e'', ss_rank = Some ''4''\<rparr>
      True None) p = None) [(12, 28)] = [(12, 28)]"
proof -
  let ?X = "CommandMove_init starting_board
      \<lparr>ss_color = WHITE, ss_piece = None, ss_file = Some ''e'', ss_rank = Some ''2''\<rparr>
      \<lparr>ss_color = BLACK, ss_piece = None, ss_file = Some ''e'', ss_rank = Some ''4''\<rparr>
      True None"
  let ?r = "\<lparr>from_square = 12, to_square = 28, promotion = None, possible = True,
            rm_captures = False, rm_blocking_pieces = 0, still_in_check = False,
            absolute_pin = False\<rparr>"
  let ?Y = "\<lparr>cmd_board = starting_board, candidate_moves = [],
        rejected_moves = [?r],
        from_where = \<lparr>ss_color = WHITE, ss_piece = None, ss_file = Some ''e'',
                      ss_rank = Some ''2''\<rparr>,
        to_where = \<lparr>ss_color = BLACK, ss_piece = None, ss_file = Some ''e'',
                    ss_rank = Some ''4''\<rparr>,
        captures = True, promotes_to = None\<rparr>"
  have h: "consider_moves start_engine ?X = Inr ?Y"
    by (rule consider_e2_takes_e4)
  have pairs: "resolved_pairs ?X = [(12, 28)]"
    by (simp add: resolved_pairs_def CommandMove_init_def squares_e2 squares_e4 pairs_e2_e4)
  note th = consider_moves_partition [OF h]
  from th have "candidate_moves ?Y = List.map_filter (pair_candidate start_engine ?X)
      (resolved_pairs ?X)"
    by (rule conjunct1)
  then have c: "List.map_filter (pair_candidate start_engine ?X) [(12, 28)] = []"
    unfolding pairs by (simp only: CommandMove.simps)
  from th have "map reject_pair (rejected_moves ?Y) =
      filter (\<lambda>p. pair_candidate start_engine ?X p = None) (resolved_pairs ?X)"
    by (rule conjunct2 [THEN conjunct1])
  then have r: "filter (\<lambda>p. pair_candidate start_engine ?X p = None) [(12, 28)] = [(12, 28)]"
    unfolding pairs
    by (simp only: CommandMove.simps Move.simps list.map reject_pair_def)
  show ?thesis
    by (rule conjI h pairs c r)+
qed

text \<open>
  Claim C6 at the request \<open>e three e four\<close> on the starting position.  The origin
  specification resolves to e3 (square 20), which is empty; the engine finds no legal move
  from it; and building the reject reads \<open>piece.piece_type\<close> of \<open>None\<close>.  Resolution ends
  with \<open>AttributeError\<close>.
\<close>

theorem unoccupied_origin_crashes:
  "piece_at starting_board 20 = None \<and>
   find_move start_engine starting_board 20 28 None = None \<and>
   decipher_request start_engine ''e three e four'' starting_board = Inl AttributeError"
proof -
  have a: "piece_at starting_board 20 = None"
    by code_simp
  have b: "find_move start_engine starting_board 20 28 None = None"
    by code_simp
  have c: "decipher_request start_engine ''e three e four'' starting_board = Inl AttributeError"
    by (rule sum_eq_InlI; code_simp)
  show ?thesis
    by (rule conjI a b c)+
qed

lemma RejectedMove_init_occupied:
  assumes "piece_at board a \<noteq> None"
  shows "\<exists>r. RejectedMove_init E board a b = Inr r"
proof -
  from assms obtain p where p: "piece_at board a = Some p"
    by blast
  have "\<exists>poss. is_possible_move (Some p) a b = Inr poss"
    by (simp add: is_possible_move_def Let_def)
  then obtain poss where poss: "is_possible_move (Some p) a b = Inr poss"
    by blast
  have "\<exists>m. blocking_squares board a b = Inr m"
    by (auto simp add: blocking_squares_def Let_def p poss split: option.splits)
  then obtain m where "blocking_squares board a b = Inr m"
    by blast
  with p poss show ?thesis
    by (simp add: RejectedMove_init_def)
qed

lemma consider_pairs_occupied:
  "list_all (\<lambda>p. piece_at board (fst p) \<noteq> None) ps \<Longrightarrow>
     \<exists>res. consider_pairs E board capt promo ps cands rejs = Inr res"
proof (induction ps arbitrary: cands rejs)
  case Nil
  then show ?case
    by simp
next
  case (Cons p ps)
  obtain a b where p: "p = (a, b)"
    by (cases p)
  with Cons.prems have occ: "piece_at board a \<noteq> None"
    and rest: "list_all (\<lambda>p. piece_at board (fst p) \<noteq> None) ps"
    by simp_all
  show ?case
  proof (cases "try_candidate E board capt promo a b")
    case None
    from RejectedMove_init_occupied [OF occ] obtain r where
      "RejectedMove_init E board a b = Inr r"
      by blast
    with None p Cons.IH [OF rest] show ?thesis
      by simp
  next
    case (Some c)
    with p Cons.IH [OF rest] show ?thesis
      by simp
  qed
qed

text \<open>
  Where resolution does return (X2): when both specifications satisfy the constructor's
  assertions and every origin square of the enumerated pairs is occupied,
  \<open>consider_moves\<close> returns a command, whatever the rules engine answers.
\<close>

theorem consider_moves_returns:
  assumes "wf_spec (from_where self)" "wf_spec (to_where self)"
    and "list_all (\<lambda>p. piece_at (cmd_board self) (fst p) \<noteq> None) (resolved_pairs self)"
  shows "\<exists>c. consider_moves E self = Inr c"
proof -
  from find_candidate_squares_matches [OF assms(1)] obtain fs where
    fs: "find_candidate_squares (from_where self) (cmd_board self) = Inr fs"
    by blast
  from find_candidate_squares_matches [OF assms(2)] obtain ts where
    ts: "find_candidate_squares (to_where self) (cmd_board self) = Inr ts"
    by blast
  from assms(3) have "list_all (\<lambda>p. piece_at (cmd_board self) (fst p) \<noteq> None)
      (square_pairs fs ts)"
    by (simp add: resolved_pairs_def fs ts)
  from consider_pairs_occupied [OF this] obtain res where
    "consider_pairs E (cmd_board self) (captures self)
       (case promotes_to self of None \<Rightarrow> None | Some s \<Rightarrow> PIECES s)
       (square_pairs fs ts) [] [] = Inr res"
    by blast
  then show ?thesis
    by (cases res) (simp add: consider_moves_def fs ts)
qed

lemma squares_white_knights:
  "find_candidate_squares
     \<lparr>ss_color = WHITE, ss_piece = Some ''knight'', ss_file = None, ss_rank = None\<rparr>
     starting_board = Inr 66"
  by code_simp

lemma squares_f3:
  "find_candidate_squares
     \<lparr>ss_color = c, ss_piece = None, ss_file = Some ''f'', ss_rank = Some ''3''\<rparr> board =
   Inr 2097152"
  by code_simp

lemma pairs_knights_f3: "square_pairs 66 2097152 = [(1, 21), (6, 21)]"
  by code_simp

lemma wf_knight_f3:
  "wf_spec \<lparr>ss_color = WHITE, ss_piece = Some ''knight'', ss_file = None, ss_rank = None\<rparr> \<and>
   wf_spec \<lparr>ss_color = BLACK, ss_piece = None, ss_file = Some ''f'', ss_rank = Some ''3''\<rparr>"
  by code_simp

lemma knights_occupied:
  "list_all (\<lambda>p. piece_at starting_board (fst p) \<noteq> None) [(1, 21), (6, 21)]"
  by code_simp

lemma possible_b1_f3: "is_possible_move (piece_at starting_board (Suc 0)) (Suc 0) 21 = Inr False"
  by code_simp

lemma blocking_b1_f3: "blocking_squares starting_board (Suc 0) 21 = Inr 0"
  by code_simp

lemma pieces_b1_f3:
  "piece_at starting_board (Suc 0) = Some \<lparr>piece_type = KNIGHT, color = WHITE\<rparr> \<and>
   piece_at starting_board 21 = None"
  by code_simp

lemma reject_b1_f3:
  "RejectedMove_init start_engine starting_board 1 21 =
     Inr \<lparr>from_square = 1, to_square = 21, promotion = None, possible = False,
          rm_captures = False, rm_blocking_pieces = 0, still_in_check = False,
          absolute_pin = False\<rparr>"
proof -
  have t: "turn starting_board = WHITE"
    by (simp add: starting_board_def)
  from possible_b1_f3 show ?thesis
    by (simp add: RejectedMove_init_def blocking_b1_f3 pieces_b1_f3 start_engine_def
          start_attacked_def t BB_ALL_def)
qed

lemma consider_knight_f3:
  "consider_moves start_engine (CommandMove_init starting_board
      \<lparr>ss_color = WHITE, ss_piece = Some ''knight'', ss_file = None, ss_rank = None\<rparr>
      \<lparr>ss_color = BLACK, ss_piece = None, ss_file = Some ''f'', ss_rank = Some ''3''\<rparr>
      False None) =
   Inr \<lparr>cmd_board = starting_board,
        candidate_moves = [\<lparr>from_square = 6, to_square = 21, promotion = None\<rparr>],
        rejected_moves =
          [\<lparr>from_square = 1, to_square = 21, promotion = None, possible = False,
            rm_captures = False, rm_blocking_pieces = 0, still_in_check = False,
            absolute_pin = False\<rparr>],
        from_where = \<lparr>ss_color = WHITE, ss_piece = Some ''knight'', ss_file = None,
                      ss_rank = None\<rparr>,
        to_where = \<lparr>ss_color = BLACK, ss_piece = None, ss_file = Some ''f'',
                    ss_rank = Some ''3''\<rparr>,
        captures = False, promotes_to = None\<rparr>"
proof -
  have "try_candidate start_engine starting_board False None 1 21 = None"
    by (simp add: try_candidate_def start_engine_def opening_move_def)
  moreover have "try_candidate start_engine starting_board False None 6 21 =
      Some \<lparr>from_square = 6, to_square = 21, promotion = None\<rparr>"
    by (simp add: try_candidate_def start_engine_def opening_move_def)
  ultimately show ?thesis
    by (simp add: consider_moves_def CommandMove_init_def squares_white_knights squares_f3
          pairs_knights_f3 reject_b1_f3 [unfolded One_nat_def])
qed

text \<open>On the starting position \<open>knight to f three\<close> enumerates b1-f3 and g1-f3: one
  candidate, and one reject that is not geometrically possible.\<close>

theorem consider_moves_returns_witness:
  "wf_spec \<lparr>ss_color = WHITE, ss_piece = Some ''knight'', ss_file = None, ss_rank = None\<rparr> \<and>
   wf_spec \<lparr>ss_color = BLACK, ss_piece = None, ss_file = Some ''f'', ss_rank = Some ''3''\<rparr> \<and>
   list_all (\<lambda>p. piece_at starting_board (fst p) \<noteq> None) [(1, 21), (6, 21)] \<and>
   consider_moves start_engine (CommandMove_init starting_board
      \<lparr>ss_color = WHITE, ss_piece = Some ''knight'', ss_file = None, ss_rank = None\<rparr>
      \<lparr>ss_color = BLACK, ss_piece = None, ss_file = Some ''f'', ss_rank = Some ''3''\<rparr>
      False None) =
   Inr \<lparr>cmd_board = starting_board,
        candidate_moves = [\<lparr>from_square = 6, to_square = 21, promotion = None\<rparr>],
        rejected_moves =
          [\<lparr>from_square = 1, to_square = 21, promotion = None, possible = False,
            rm_captures = False, rm_blocking_pieces = 0, still_in_check = False,
            absolute_pin = False\<rparr>],
        from_where = \<lparr>ss_color = WHITE, ss_piece = Some ''knight'', ss_file = None,
                      ss_rank = None\<rparr>,
        to_where = \<lparr>ss_color = BLACK, ss_piece = None, ss_file = Some ''f'',
                    ss_rank = Some ''3''\<rparr>,
        captures = False, promotes_to = None\<rparr>"
proof -
  let ?X = "CommandMove_init starting_board
      \<lparr>ss_color = WHITE, ss_piece = Some ''knight'', ss_file = None, ss_rank = None\<rparr>
      \<lparr>ss_color = BLACK, ss_piece = None, ss_file = Some ''f'', ss_rank = Some ''3''\<rparr>
      False None"
  have w1: "wf_spec (from_where ?X)" and w2: "wf_spec (to_where ?X)"
    using wf_knight_f3 by (simp_all add: CommandMove_init_def)
  have pairs: "resolved_pairs ?X = [(1, 21), (6, 21)]"
    by (simp add: resolved_pairs_def CommandMove_init_def squares_white_knights squares_f3
          pairs_knights_f3)
  have occ: "list_all (\<lambda>p. piece_at (cmd_board ?X) (fst p) \<noteq> None) (resolved_pairs ?X)"
    unfolding pairs using knights_occupied by (simp add: CommandMove_init_def)
  from consider_moves_returns [OF w1 w2 occ, of start_engine] obtain c where
    c: "consider_moves start_engine ?X = Inr c"
    by blast
  with consider_knight_f3 have "c = \<lparr>cmd_board = starting_board,
        candidate_moves = [\<lparr>from_square = 6, to_square = 21, promotion = None\<rparr>],
        rejected_moves =
          [\<lparr>from_square = 1, to_square = 21, promotion = None, possible = False,
            rm_captures = False, rm_blocking_pieces = 0, still_in_check = False,
            absolute_pin = False\<rparr>],
        from_where = \<lparr>ss_color = WHITE, ss_piece = Some ''knight'', ss_file = None,
                      ss_rank = None\<rparr>,
        to_where = \<lparr>ss_color = BLACK, ss_piece = None, ss_file = Some ''f'',
                    ss_rank = Some ''3''\<rparr>,
        captures = False, promotes_to = None\<rparr>"
    by (simp only: sum.inject)
  with c have k: "consider_moves start_engine ?X = Inr \<lparr>cmd_board = starting_board,
        candidate_moves = [\<lparr>from_square = 6, to_square = 21, promotion = None\<rparr>],
        rejected_moves =
          [\<lparr>from_square = 1, to_square = 21, promotion = None, possible = False,
            rm_captures = False, rm_blocking_pieces = 0, still_in_check = False,
            absolute_pin = False\<rparr>],
        from_where = \<lparr>ss_color = WHITE, ss_piece = Some ''knight'', ss_file = None,
                      ss_rank = None\<rparr>,
        to_where = \<lparr>ss_color = BLACK, ss_piece = None, ss_file = Some ''f'',
                    ss_rank = Some ''3''\<rparr>,
        captures = False, promotes_to = None\<rparr>"
    by (simp only:)
  from wf_knight_f3 have a1:
    "wf_spec \<lparr>ss_color = WHITE, ss_piece = Some ''knight'', ss_file = None, ss_rank = None\<rparr>"
    and a2:
    "wf_spec \<lparr>ss_color = BLACK, ss_piece = None, ss_file = Some ''f'', ss_rank = Some ''3''\<rparr>"
    by (rule conjunct1, rule conjunct2)
  show ?thesis
    by (rule conjI a1 a2 knights_occupied k)+
qed

subsection \<open>Explaining a rejected castle\<close>

lemma filter_attr_assigned:
  "list_all (\<lambda>x. attr x \<noteq> None) xs \<Longrightarrow>
     filter_attr attr xs = Inr (filter (\<lambda>x. attr x = Some True) xs)"
  by (induction xs) auto

lemma say_if_any_assigned:
  "list_all (\<lambda>x. attr x \<noteq> None) xs \<Longrightarrow>
     say_if_any attr sentence xs (out, None) =
       (out @ (if list_ex (\<lambda>x. attr x = Some True) xs then [sentence] else []), None)"
  by (simp add: say_if_any_def filter_attr_assigned list_ex_iff filter_empty_conv)

lemma castle_conditions_assigned:
  "castle_conditions E board self a b c = Inr r \<Longrightarrow> assigned r"
  by (auto simp add: castle_conditions_def assigned_def Let_def
        split: if_splits option.splits sum.splits)

lemma CastleMove_init_assigned:
  "CastleMove_init E board s = Inr r \<Longrightarrow> s = ''king'' \<or> s = ''queen'' \<Longrightarrow> assigned r"
  by (auto simp add: CastleMove_init_def Let_def castle_conditions_assigned split: if_splits)

lemma castle_try_assigned:
  assumes "castle_try E self s n acc = Inr acc'" "s = ''king'' \<or> s = ''queen''"
    "list_all assigned (snd acc)"
  shows "list_all assigned (snd acc')"
  using assms
  by (auto simp add: castle_try_def CastleMove_init_assigned
        split: if_splits option.splits sum.splits)

lemma castle_consider_moves_assigned:
  assumes "castle_consider_moves E c0 = Inr c"
  shows "list_all assigned (cc_rejected_moves c)"
proof -
  from assms obtain acc1 cs rs where
    one: "castle_try E c0 ''king'' ''O-O'' ([], []) = Inr acc1" and
    two: "castle_try E c0 ''queen'' ''O-O-O'' acc1 = Inr (cs, rs)" and
    c: "c = c0\<lparr>cc_candidate_moves := cs, cc_rejected_moves := rs\<rparr>"
    by (auto simp add: castle_consider_moves_def split: sum.splits)
  from castle_try_assigned [OF one] have "list_all assigned (snd acc1)"
    by simp
  with castle_try_assigned [OF two] have "list_all assigned rs"
    by simp
  with c show ?thesis
    by simp
qed

lemma assigned_with_right:
  assumes "assigned r" "right_to_castle r \<noteq> Some False"
  shows "cm_blocking_pieces r \<noteq> None \<and> through_check r \<noteq> None \<and> into_check r \<noteq> None"
proof (cases "right_to_castle r")
  case None
  with assms(1) show ?thesis
    by (simp add: assigned_def)
next
  case (Some right)
  with assms show ?thesis
    by (cases right) (simp_all add: assigned_def)
qed

lemma explain_no_castle_assigned:
  assumes "list_all assigned (cc_rejected_moves c)"
  shows "explain_no_castle c =
           (if list_ex (\<lambda>r. right_to_castle r = Some False) (cc_rejected_moves c)
            then [NO_RIGHTS]
            else (if list_ex blocked (cc_rejected_moves c) then [PATH_BLOCKED] else []) @
                 (if list_ex in_check (cc_rejected_moves c) then [STILL_IN_CHECK] else []) @
                 (if list_ex (\<lambda>r. flagged (through_check r)) (cc_rejected_moves c)
                  then [THROUGH_CHECK] else []) @
                 (if list_ex (\<lambda>r. flagged (into_check r)) (cc_rejected_moves c)
                  then [INTO_CHECK] else []),
            None)"
proof -
  let ?rs = "cc_rejected_moves c"
  from assms have rights: "list_all (\<lambda>r. map_option Not (right_to_castle r) \<noteq> None) ?rs"
    by (auto simp add: list_all_iff assigned_def split: option.splits)
  have first: "filter_attr (\<lambda>move. map_option Not (right_to_castle move)) ?rs =
                 Inr (filter (\<lambda>r. right_to_castle r = Some False) ?rs)"
  proof -
    have eq: "(\<lambda>r. map_option Not (right_to_castle r) = Some True) =
          (\<lambda>r. right_to_castle r = Some False)"
      by (rule ext) (auto split: option.splits)
    show ?thesis
      using filter_attr_assigned [OF rights] unfolding eq .
  qed
  show ?thesis
  proof (cases "list_ex (\<lambda>r. right_to_castle r = Some False) ?rs")
    case True
    then have "filter (\<lambda>r. right_to_castle r = Some False) ?rs \<noteq> []"
      by (simp add: list_ex_iff filter_empty_conv)
    with True first show ?thesis
      by (simp add: explain_no_castle_def)
  next
    case False
    then have empty: "filter (\<lambda>r. right_to_castle r = Some False) ?rs = []"
      by (simp add: list_ex_iff filter_empty_conv)
    from False assms have all: "list_all (\<lambda>r. cm_blocking_pieces r \<noteq> None \<and>
        through_check r \<noteq> None \<and> into_check r \<noteq> None) ?rs"
      using assigned_with_right by (fastforce simp add: list_all_iff list_ex_iff)
    then have
      b: "list_all (\<lambda>r. map_option (\<lambda>m. m \<noteq> 0) (cm_blocking_pieces r) \<noteq> None) ?rs" and
      t: "list_all (\<lambda>r. through_check r \<noteq> None) ?rs" and
      i: "list_all (\<lambda>r. into_check r \<noteq> None) ?rs" and
      k: "list_all (\<lambda>r. Some (in_check r) \<noteq> None) ?rs"
      by (auto simp add: list_all_iff)
    have beq: "(\<lambda>r. map_option (\<lambda>m. m \<noteq> 0) (cm_blocking_pieces r) = Some True) = blocked"
      by (rule ext) (auto simp add: blocked_def split: option.splits)
    note say = say_if_any_assigned [OF b, unfolded beq] say_if_any_assigned [OF k]
      say_if_any_assigned [OF t] say_if_any_assigned [OF i]
    from False first empty show ?thesis
      by (simp add: explain_no_castle_def say flagged_def)
  qed
qed

text \<open>
  Claim C3 (as amended).  For a castle command as \<open>consider_moves\<close> leaves it, the
  explanation is the sentence about castling rights alone when a reject lacks them.
  Otherwise it is one sentence for each of the four further conditions that some reject
  meets, in the fixed order blocked path, in check, through check, into check: up to four
  sentences, not at most one.
\<close>

theorem explain_no_castle_sentences:
  assumes "castle_consider_moves E c0 = Inr c"
  shows "explain_no_castle c =
           (if list_ex (\<lambda>r. right_to_castle r = Some False) (cc_rejected_moves c)
            then [NO_RIGHTS]
            else (if list_ex blocked (cc_rejected_moves c) then [PATH_BLOCKED] else []) @
                 (if list_ex in_check (cc_rejected_moves c) then [STILL_IN_CHECK] else []) @
                 (if list_ex (\<lambda>r. flagged (through_check r)) (cc_rejected_moves c)
                  then [THROUGH_CHECK] else []) @
                 (if list_ex (\<lambda>r. flagged (into_check r)) (cc_rejected_moves c)
                  then [INTO_CHECK] else []),
            None)"
  using explain_no_castle_assigned [OF castle_consider_moves_assigned [OF assms]] .

lemma blocking_e1_f1: "blocking_squares starting_board 4 5 = Inr 5"
  by code_simp

lemma blocking_e1_d1: "blocking_squares starting_board 4 3 = Inr 3"
  by code_simp

lemma blocking_check_e1_f1: "blocking_squares check_board 4 5 = Inr 5"
  by code_simp

lemma ior_values: "SquareSet_ior 5 6 = 7 \<and> SquareSet_ior 3 2 = 3"
  by code_simp

lemma starting_occupied: "piece_at starting_board 6 \<noteq> None \<and> piece_at starting_board 2 \<noteq> None"
  by code_simp

lemma check_occupied: "piece_at check_board 6 \<noteq> None"
  by code_simp

lemma castle_both_start:
  "castle_consider_moves start_engine (CastleCommand_init starting_board None) =
     Inr \<lparr>cc_board = starting_board, cc_candidate_moves = [],
          cc_rejected_moves =
            [\<lparr>cm_side = ''king'', in_check = False, right_to_castle = Some True,
              cm_blocking_pieces = Some 7, through_check = Some False,
              into_check = Some False\<rparr>,
             \<lparr>cm_side = ''queen'', in_check = False, right_to_castle = Some True,
              cm_blocking_pieces = Some 3, through_check = Some False,
              into_check = Some False\<rparr>],
          side = None\<rparr>"
proof -
  have t: "turn starting_board = WHITE"
    by (simp add: starting_board_def)
  show ?thesis
    by (simp add: castle_consider_moves_def castle_try_def CastleCommand_init_def truthy_def
          CastleMove_init_def castle_conditions_def start_engine_def start_attacked_def t
          blocking_e1_f1 blocking_e1_d1 ior_values starting_occupied)
qed

text \<open>On the starting position both castles are rejected for a blocked path only.\<close>

theorem explain_no_castle_sentences_witness:
  "castle_consider_moves start_engine (CastleCommand_init starting_board None) =
     Inr \<lparr>cc_board = starting_board, cc_candidate_moves = [],
          cc_rejected_moves =
            [\<lparr>cm_side = ''king'', in_check = False, right_to_castle = Some True,
              cm_blocking_pieces = Some 7, through_check = Some False,
              into_check = Some False\<rparr>,
             \<lparr>cm_side = ''queen'', in_check = False, right_to_castle = Some True,
              cm_blocking_pieces = Some 3, through_check = Some False,
              into_check = Some False\<rparr>],
          side = None\<rparr> \<and>
   explain_no_castle
     \<lparr>cc_board = starting_board, cc_candidate_moves = [],
      cc_rejected_moves =
        [\<lparr>cm_side = ''king'', in_check = False, right_to_castle = Some True,
          cm_blocking_pieces = Some 7, through_check = Some False,
          into_check = Some False\<rparr>,
         \<lparr>cm_side = ''queen'', in_check = False, right_to_castle = Some True,
          cm_blocking_pieces = Some 3, through_check = Some False,
          into_check = Some False\<rparr>],
      side = None\<rparr> = ([PATH_BLOCKED], None)"
  using explain_no_castle_sentences [OF castle_both_start] castle_both_start
  by (simp add: blocked_def flagged_def)

lemma split_castle_short: "str_split ''castle short'' = [''castle'', ''short'']"
  by code_simp

lemma mentions_castle_short: "mentions [''castle'', ''short''] KINGSIDE_TOKENS = True"
  by code_simp

text \<open>
  Claim C3 as stated fails on the position with the king in check: \<open>castle short\<close> is
  rejected, the path is blocked and the king is in check, and the explanation has two
  sentences.
\<close>

theorem castle_in_check_two_sentences:
  "decipher_request check_engine ''castle short'' check_board =
     Inr (Command (Castle
       \<lparr>cc_board = check_board, cc_candidate_moves = [],
        cc_rejected_moves =
          [\<lparr>cm_side = ''king'', in_check = True, right_to_castle = Some True,
            cm_blocking_pieces = Some 7, through_check = Some False,
            into_check = Some False\<rparr>],
        side = Some ''king''\<rparr>)) \<and>
   explain_no_castle
     \<lparr>cc_board = check_board, cc_candidate_moves = [],
      cc_rejected_moves =
        [\<lparr>cm_side = ''king'', in_check = True, right_to_castle = Some True,
          cm_blocking_pieces = Some 7, through_check = Some False,
          into_check = Some False\<rparr>],
      side = Some ''king''\<rparr> = ([PATH_BLOCKED, STILL_IN_CHECK], None)"
proof -
  have t: "turn check_board = WHITE"
    by (simp add: check_board_def starting_board_def)
  have "castle_consider_moves check_engine (CastleCommand_init check_board (Some ''king'')) =
     Inr \<lparr>cc_board = check_board, cc_candidate_moves = [],
        cc_rejected_moves =
          [\<lparr>cm_side = ''king'', in_check = True, right_to_castle = Some True,
            cm_blocking_pieces = Some 7, through_check = Some False,
            into_check = Some False\<rparr>],
        side = Some ''king''\<rparr>"
    by (simp add: castle_consider_moves_def castle_try_def CastleCommand_init_def truthy_def
          CastleMove_init_def castle_conditions_def check_engine_def start_engine_def
          start_attacked_def t blocking_check_e1_f1 ior_values check_occupied)
  then show ?thesis
    by (simp add: decipher_request_def split_castle_short mentions_castle_short
          explain_no_castle_def say_if_any_def)
qed

subsection \<open>The board changes by one push only\<close>

text \<open>
  Claim C9.  Resolving a command, directional or castle, returns it with the board it
  had; and after \<open>respond_to_command\<close> the board is the engine's \<open>push\<close> of the one candidate
  when the command has exactly one, and the board as before when it has none or several.
\<close>

theorem board_frame:
  "(consider_moves E self = Inr c \<longrightarrow> cmd_board c = cmd_board self) \<and>
   (castle_consider_moves E cself = Inr cc \<longrightarrow> cc_board cc = cc_board cself) \<and>
   w_board (respond_to_command E command w) =
     (if length (command_candidates command) = 1
      then push E (w_board w) (command_candidates command ! 0)
      else w_board w)"
proof (intro conjI impI)
  assume "consider_moves E self = Inr c"
  then show "cmd_board c = cmd_board self"
    by (auto simp add: consider_moves_def Let_def split: sum.splits)
next
  assume "castle_consider_moves E cself = Inr cc"
  then show "cc_board cc = cc_board cself"
    by (auto simp add: castle_consider_moves_def split: sum.splits)
next
  show "w_board (respond_to_command E command w) =
     (if length (command_candidates command) = 1
      then push E (w_board w) (command_candidates command ! 0)
      else w_board w)"
    by (simp add: respond_to_command_def Let_def)
qed

text \<open>On the starting position: \<open>e two e four\<close> has one candidate and the board becomes
  the pushed one; \<open>castle\<close> has none and the board stays.\<close>

theorem board_frame_witness:
  "consider_moves start_engine (CommandMove_init starting_board
      \<lparr>ss_color = WHITE, ss_piece = None, ss_file = Some ''e'', ss_rank = Some ''2''\<rparr>
      \<lparr>ss_color = BLACK, ss_piece = None, ss_file = Some ''e'', ss_rank = Some ''4''\<rparr>
      False None) =
   Inr \<lparr>cmd_board = starting_board,
        candidate_moves = [\<lparr>from_square = 12, to_square = 28, promotion = None\<rparr>],
        rejected_moves = [],
        from_where = \<lparr>ss_color = WHITE, ss_piece = None, ss_file = Some ''e'',
                      ss_rank = Some ''2''\<rparr>,
        to_where = \<lparr>ss_color = BLACK, ss_piece = None, ss_file = Some ''e'',
                    ss_rank = Some ''4''\<rparr>,
        captures = False, promotes_to = None\<rparr> \<and>
   cmd_board
     \<lparr>cmd_board = starting_board,
      candidate_moves = [\<lparr>from_square = 12, to_square = 28, promotion = None\<rparr>],
      rejected_moves = [],
      from_where = \<lparr>ss_color = WHITE, ss_piece = None, ss_file = Some ''e'',
                    ss_rank = Some ''2''\<rparr>,
      to_where = \<lparr>ss_color = BLACK, ss_piece = None, ss_file = Some ''e'',
                  ss_rank = Some ''4''\<rparr>,
      captures = False, promotes_to = None\<rparr> =
   cmd_board (CommandMove_init starting_board
      \<lparr>ss_color = WHITE, ss_piece = None, ss_file = Some ''e'', ss_rank = Some ''2''\<rparr>
      \<lparr>ss_color = BLACK, ss_piece = None, ss_file = Some ''e'', ss_rank = Some ''4''\<rparr>
      False None) \<and>
   w_board (respond_to_command start_engine (Directional
       \<lparr>cmd_board = starting_board,
        candidate_moves = [\<lparr>from_square = 12, to_square = 28, promotion = None\<rparr>],
        rejected_moves = [],
        from_where = \<lparr>ss_color = WHITE, ss_piece = None, ss_file = Some ''e'',
                      ss_rank = Some ''2''\<rparr>,
        to_where = \<lparr>ss_color = BLACK, ss_piece = None, ss_file = Some ''e'',
                    ss_rank = Some ''4''\<rparr>,
        captures = False, promotes_to = None\<rparr>)
     \<lparr>w_board = starting_board, last_spoken_command = Some ''e two e four'',
      last_board_command = None, spoken = []\<rparr>) =
     start_push starting_board \<lparr>from_square = 12, to_square = 28, promotion = None\<rparr> \<and>
   castle_consider_moves start_engine (CastleCommand_init starting_board None) =
     Inr \<lparr>cc_board = starting_board, cc_candidate_moves = [],
          cc_rejected_moves =
            [\<lparr>cm_side = ''king'', in_check = False, right_to_castle = Some True,
              cm_blocking_pieces = Some 7, through_check = Some False,
              into_check = Some False\<rparr>,
             \<lparr>cm_side = ''queen'', in_check = False, right_to_castle = Some True,
              cm_blocking_pieces = Some 3, through_check = Some False,
              into_check = Some False\<rparr>],
          side = None\<rparr> \<and>
   w_board (respond_to_command start_engine (Castle
       \<lparr>cc_board = starting_board, cc_candidate_moves = [],
        cc_rejected_moves =
          [\<lparr>cm_side = ''king'', in_check = False, right_to_castle = Some True,
            cm_blocking_pieces = Some 7, through_check = Some False,
            into_check = Some False\<rparr>,
           \<lparr>cm_side = ''queen'', in_check = False, right_to_castle = Some True,
            cm_blocking_pieces = Some 3, through_check = Some False,
            into_check = Some False\<rparr>],
        side = None\<rparr>)
     \<lparr>w_board = starting_board, last_spoken_command = Some ''castle'',
      last_board_command = None, spoken = []\<rparr>) = starting_board"
proof -
  let ?m = "\<lparr>from_square = 12, to_square = 28, promotion = None\<rparr>"
  let ?Y = "\<lparr>cmd_board = starting_board, candidate_moves = [?m], rejected_moves = [],
        from_where = \<lparr>ss_color = WHITE, ss_piece = None, ss_file = Some ''e'',
                      ss_rank = Some ''2''\<rparr>,
        to_where = \<lparr>ss_color = BLACK, ss_piece = None, ss_file = Some ''e'',
                    ss_rank = Some ''4''\<rparr>,
        captures = False, promotes_to = None\<rparr>"
  let ?CY = "\<lparr>cc_board = starting_board, cc_candidate_moves = [],
        cc_rejected_moves =
          [\<lparr>cm_side = ''king'', in_check = False, right_to_castle = Some True,
            cm_blocking_pieces = Some 7, through_check = Some False,
            into_check = Some False\<rparr>,
           \<lparr>cm_side = ''queen'', in_check = False, right_to_castle = Some True,
            cm_blocking_pieces = Some 3, through_check = Some False,
            into_check = Some False\<rparr>],
        side = None\<rparr>"
  let ?w1 = "\<lparr>w_board = starting_board, last_spoken_command = Some ''e two e four'',
      last_board_command = None, spoken = []\<rparr>"
  let ?w2 = "\<lparr>w_board = starting_board, last_spoken_command = Some ''castle'',
      last_board_command = None, spoken = []\<rparr>"
  let ?X = "CommandMove_init starting_board
      \<lparr>ss_color = WHITE, ss_piece = None, ss_file = Some ''e'', ss_rank = Some ''2''\<rparr>
      \<lparr>ss_color = BLACK, ss_piece = None, ss_file = Some ''e'', ss_rank = Some ''4''\<rparr>
      False None"
  note h1 = consider_e2_e4 [OF start_finds_e2_e4]
  note h2 = castle_both_start
  from board_frame [of start_engine ?X ?Y _ _ "Directional ?Y" ?w1]
  have "consider_moves start_engine ?X = Inr ?Y \<longrightarrow> cmd_board ?Y = cmd_board ?X"
    by (rule conjunct1)
  from this h1 have k: "cmd_board ?Y = cmd_board ?X"
    by (rule mp)
  have a: "w_board (respond_to_command start_engine (Directional ?Y) ?w1) =
             start_push starting_board ?m"
    using board_frame [of start_engine _ _ _ _ "Directional ?Y" ?w1]
    by (simp add: command_candidates_def start_engine_def)
  have b: "w_board (respond_to_command start_engine (Castle ?CY) ?w2) = starting_board"
    using board_frame [of start_engine _ _ _ _ "Castle ?CY" ?w2]
    by (simp add: command_candidates_def)
  show ?thesis
    by (rule conjI h1 h2 k a b)+
qed

end
